theory Spec2Isabelle
  imports Complex_Main "HOL-Library.AList"
begin

section \<open>Conventions of the embedding\<close>

text \<open>
  The repository is Python.  Its floating point numbers are modelled by \<^typ>\<open>real\<close> and a
  decimal literal such as \<^verbatim>\<open>0.8\<close> by the real number it denotes; Python's unbounded
  integers are \<^typ>\<open>int\<close>.  A method that mutates \<^verbatim>\<open>self\<close> takes the object's state and
  returns the new one.  An exception is a value of \<open>py_error\<close>; where a call can raise after
  it has already mutated the object, the model returns the mutated state next to the error,
  as the Python object is left.
\<close>

datatype py_error =
  KeyError | AttributeError | ValueError | TypeError | OSError | ZeroDivisionError

section \<open>\<^verbatim>\<open>backend/learning/core.py\<close>\<close>

subsection \<open>\<^verbatim>\<open>ComplexityManager\<close>\<close>

text \<open>
  The dictionary \<^verbatim>\<open>recipe_data\<close> as \<^verbatim>\<open>update_complexity\<close> reads it: the three keys it looks
  up with \<^verbatim>\<open>.get\<close>, each of which may be absent (\<open>None\<close>).
\<close>

record recipe_data =
  rd_rating :: "real option"
  rd_techniques :: "string list option"
  rd_timestamp :: "string option"

record progression_entry =
  pe_level :: int
  pe_success_rate :: real
  pe_timestamp :: "string option"

record ComplexityManager =
  current_level :: int
  progression_history :: "progression_entry list"

definition ComplexityManager_init :: ComplexityManager where
  "ComplexityManager_init = \<lparr>current_level = 0, progression_history = []\<rparr>"

text \<open>\<^verbatim>\<open>recipe_data.get('rating', 0)\<close> and \<^verbatim>\<open>len(recipe_data.get('techniques', []))\<close>\<close>

definition rd_success_rate :: "recipe_data \<Rightarrow> real" where
  "rd_success_rate rd = (case rd_rating rd of None \<Rightarrow> 0 | Some r \<Rightarrow> r)"

definition rd_technique_count :: "recipe_data \<Rightarrow> nat" where
  "rd_technique_count rd = length (case rd_techniques rd of None \<Rightarrow> [] | Some ts \<Rightarrow> ts)"

text \<open>\<^verbatim>\<open>self.current_level / 10\<close> is Python's true division, a float.\<close>

definition update_complexity :: "ComplexityManager \<Rightarrow> recipe_data \<Rightarrow> ComplexityManager" where
  "update_complexity self rd =
     (let success_rate = rd_success_rate rd;
          technique_count = rd_technique_count rd;
          lvl = (if success_rate > 0.8
                    \<and> real technique_count \<ge> real_of_int (current_level self) / 10
                 then min 100 (current_level self + 5)
                 else if success_rate < 0.3
                 then max 0 (current_level self - 2)
                 else current_level self)
      in \<lparr>current_level = lvl,
          progression_history = progression_history self @
            [\<lparr>pe_level = lvl, pe_success_rate = success_rate,
              pe_timestamp = rd_timestamp rd\<rparr>]\<rparr>)"

text \<open>A sequence of calls of \<^verbatim>\<open>update_complexity\<close> on one manager, oldest first.\<close>

fun update_complexity_all :: "ComplexityManager \<Rightarrow> recipe_data list \<Rightarrow> ComplexityManager" where
  "update_complexity_all self [] = self"
| "update_complexity_all self (rd # rds) = update_complexity_all (update_complexity self rd) rds"

subsection \<open>\<^verbatim>\<open>RecipeLearner\<close>\<close>

text \<open>
  \<^verbatim>\<open>technique_graph\<close> is a \<^verbatim>\<open>networkx.DiGraph\<close>.  The three operations the method uses are
  modelled on a graph given by its node set and its weighted edges: \<^verbatim>\<open>has_edge(u, v)\<close>,
  \<^verbatim>\<open>add_edge(u, v, weight=1)\<close>, which also adds both end points as nodes, and the increment
  of the weight attribute of an edge.  The method increments only an edge that \<^verbatim>\<open>has_edge\<close> has
  just found, so the increment never misses its edge.
\<close>

record DiGraph =
  nodes :: "string set"
  edges :: "string \<times> string \<rightharpoonup> int"

definition has_edge :: "DiGraph \<Rightarrow> string \<Rightarrow> string \<Rightarrow> bool" where
  "has_edge g u v = (edges g (u, v) \<noteq> None)"

definition add_edge :: "DiGraph \<Rightarrow> string \<Rightarrow> string \<Rightarrow> int \<Rightarrow> DiGraph" where
  "add_edge g u v w = \<lparr>nodes = insert u (insert v (nodes g)), edges = (edges g)((u, v) \<mapsto> w)\<rparr>"

definition incr_weight :: "DiGraph \<Rightarrow> string \<Rightarrow> string \<Rightarrow> DiGraph" where
  "incr_weight g u v =
     (case edges g (u, v) of
        None \<Rightarrow> g
      | Some w \<Rightarrow> g\<lparr>edges := (edges g)((u, v) \<mapsto> w + 1)\<rparr>)"

record RecipeLearner =
  technique_graph :: DiGraph
  technique_difficulties :: "string \<times> string \<rightharpoonup> real"
  successful_patterns :: "string list list"

definition RecipeLearner_init :: RecipeLearner where
  "RecipeLearner_init =
     \<lparr>technique_graph = \<lparr>nodes = {}, edges = Map.empty\<rparr>,
      technique_difficulties = Map.empty,
      successful_patterns = []\<rparr>"

definition update_difficulty :: "RecipeLearner \<Rightarrow> string \<Rightarrow> string \<Rightarrow> real \<Rightarrow> RecipeLearner" where
  "update_difficulty self tech1 tech2 rating =
     (let current_diff = (case technique_difficulties self (tech1, tech2) of
                            None \<Rightarrow> 0.5 | Some d \<Rightarrow> d)
      in self\<lparr>technique_difficulties :=
                (technique_difficulties self)((tech1, tech2) \<mapsto> (current_diff + rating) / 2)\<rparr>)"

text \<open>The body of the loop over \<^verbatim>\<open>i\<close>, for \<^verbatim>\<open>current, next_tech = techniques[i], techniques[i + 1]\<close>.\<close>

definition learn_transition :: "RecipeLearner \<Rightarrow> string \<Rightarrow> string \<Rightarrow> real \<Rightarrow> RecipeLearner" where
  "learn_transition self current next_tech success_rating =
     (let g = technique_graph self;
          g' = (if \<not> has_edge g current next_tech
                then add_edge g current next_tech 1
                else incr_weight g current next_tech)
      in update_difficulty (self\<lparr>technique_graph := g'\<rparr>) current next_tech success_rating)"

text \<open>\<^verbatim>\<open>for i in range(len(techniques) - 1)\<close>: every pair of neighbours, left to right.\<close>

fun learn_transitions :: "RecipeLearner \<Rightarrow> string list \<Rightarrow> real \<Rightarrow> RecipeLearner" where
  "learn_transitions self (current # next_tech # rest) success_rating =
     learn_transitions (learn_transition self current next_tech success_rating)
       (next_tech # rest) success_rating"
| "learn_transitions self _ success_rating = self"

definition learn_technique_sequence :: "RecipeLearner \<Rightarrow> string list \<Rightarrow> real \<Rightarrow> RecipeLearner" where
  "learn_technique_sequence self techniques success_rating =
     (if success_rating > 0.7 then learn_transitions self techniques success_rating else self)"

subsection \<open>\<^verbatim>\<open>IngredientLearner\<close>\<close>

text \<open>
  \<^verbatim>\<open>compatibility_matrix\<close> and \<^verbatim>\<open>confidence_scores\<close> are \<^verbatim>\<open>defaultdict\<close>s of \<^verbatim>\<open>defaultdict\<close>s,
  with the defaults \<^verbatim>\<open>float()\<close>, that is 0, and 1.0.  A nested dictionary is a map from the
  row key to the row; \<open>dd_get\<close> reads an entry, giving the default where the row or the
  entry is missing, and \<open>dd_set\<close> stores one, creating the row where it is missing.  (A read
  of a missing entry also stores the default there; the method overwrites every entry it
  reads, so the stored default is never seen.)
\<close>

type_synonym matrix = "string \<rightharpoonup> (string \<rightharpoonup> real)"

definition dd_get :: "matrix \<Rightarrow> real \<Rightarrow> string \<Rightarrow> string \<Rightarrow> real" where
  "dd_get m dflt a b =
     (case m a of
        None \<Rightarrow> dflt
      | Some row \<Rightarrow> (case row b of None \<Rightarrow> dflt | Some v \<Rightarrow> v))"

definition dd_set :: "matrix \<Rightarrow> string \<Rightarrow> string \<Rightarrow> real \<Rightarrow> matrix" where
  "dd_set m a b v = m(a \<mapsto> (case m a of None \<Rightarrow> Map.empty | Some row \<Rightarrow> row)(b \<mapsto> v))"

record IngredientLearner =
  compatibility_matrix :: matrix
  confidence_scores :: matrix

definition IngredientLearner_init :: IngredientLearner where
  "IngredientLearner_init = \<lparr>compatibility_matrix = Map.empty, confidence_scores = Map.empty\<rparr>"

definition compatibility :: "IngredientLearner \<Rightarrow> string \<Rightarrow> string \<Rightarrow> real" where
  "compatibility self a b = dd_get (compatibility_matrix self) 0 a b"

definition confidence_of :: "IngredientLearner \<Rightarrow> string \<Rightarrow> string \<Rightarrow> real" where
  "confidence_of self a b = dd_get (confidence_scores self) 1 a b"

text \<open>
  The body of the two loops, for \<^verbatim>\<open>i1 != i2\<close>.  The division is Python's float division,
  which raises \<^verbatim>\<open>ZeroDivisionError\<close> for \<^verbatim>\<open>confidence + 1 == 0\<close>; HOL's total division
  gives 0 there.  Every state reached from the initial one has all its confidences at least
  1 (part of \<open>compatibility_symmetric\<close> below), so the two agree on those states.
\<close>

definition learn_pair :: "IngredientLearner \<Rightarrow> string \<Rightarrow> string \<Rightarrow> real \<Rightarrow> IngredientLearner" where
  "learn_pair self i1 i2 rating =
     (let current_score = dd_get (compatibility_matrix self) 0 i1 i2;
          confidence = dd_get (confidence_scores self) 1 i1 i2;
          new_score = (current_score * confidence + rating) / (confidence + 1);
          new_confidence = confidence + 1
      in \<lparr>compatibility_matrix = dd_set (compatibility_matrix self) i1 i2 new_score,
          confidence_scores = dd_set (confidence_scores self) i1 i2 new_confidence\<rparr>)"

text \<open>\<^verbatim>\<open>for i2 in ingredients: if i1 != i2: ...\<close>\<close>

fun learn_row :: "IngredientLearner \<Rightarrow> string \<Rightarrow> string list \<Rightarrow> real \<Rightarrow> IngredientLearner" where
  "learn_row self i1 [] rating = self"
| "learn_row self i1 (i2 # rest) rating =
     learn_row (if i1 \<noteq> i2 then learn_pair self i1 i2 rating else self) i1 rest rating"

text \<open>\<^verbatim>\<open>for i1 in ingredients: for i2 in ingredients: ...\<close>; the inner loop runs over the whole list.\<close>

fun learn_rows :: "IngredientLearner \<Rightarrow> string list \<Rightarrow> string list \<Rightarrow> real \<Rightarrow> IngredientLearner" where
  "learn_rows self [] ingredients rating = self"
| "learn_rows self (i1 # rest) ingredients rating =
     learn_rows (learn_row self i1 ingredients rating) rest ingredients rating"

text \<open>
  \<^verbatim>\<open>learn_from_feedback\<close>.  Its last statement, \<^verbatim>\<open>_update_embeddings\<close>, builds a PyTorch module
  and touches neither matrix; it is left out.
\<close>

definition learn_from_feedback :: "IngredientLearner \<Rightarrow> string list \<Rightarrow> real \<Rightarrow> IngredientLearner" where
  "learn_from_feedback self ingredients rating = learn_rows self ingredients ingredients rating"

fun learn_from_feedback_all ::
  "IngredientLearner \<Rightarrow> (string list \<times> real) list \<Rightarrow> IngredientLearner" where
  "learn_from_feedback_all self [] = self"
| "learn_from_feedback_all self ((ingredients, rating) # rest) =
     learn_from_feedback_all (learn_from_feedback self ingredients rating) rest"

text \<open>One Bayesian blend of an entry, as a function on the pair (score, confidence).\<close>

definition blend :: "real \<Rightarrow> real \<times> real \<Rightarrow> real \<times> real" where
  "blend rating = (\<lambda>(score, confidence).
     ((score * confidence + rating) / (confidence + 1), confidence + 1))"

definition cell :: "IngredientLearner \<Rightarrow> string \<Rightarrow> string \<Rightarrow> real \<times> real" where
  "cell self a b = (compatibility self a b, confidence_of self a b)"

section \<open>\<^verbatim>\<open>backend/app/learning_system.py\<close>\<close>

subsection \<open>Dictionaries\<close>

text \<open>
  A dictionary whose iteration order is observed is an association list in insertion order.
  \<open>map_of d k\<close> is the lookup, \<open>AList.update k v d\<close> is \<^verbatim>\<open>d[k] = v\<close> (in place for a key that
  is present, at the end for a new one) and \<open>AList.map_entry k f d\<close> changes the value of a
  key that is present.  \<open>setdefault k v d\<close> is the statement \<^verbatim>\<open>if k not in d: d[k] = v\<close>.
\<close>

definition setdefault :: "'k \<Rightarrow> 'v \<Rightarrow> ('k \<times> 'v) list \<Rightarrow> ('k \<times> 'v) list" where
  "setdefault k v d = (if map_of d k = None then d @ [(k, v)] else d)"

subsection \<open>\<^verbatim>\<open>CulinaryMastery\<close>\<close>

datatype SkillCategory =
    TECHNIQUE_MASTERY
  | FLAVOR_PAIRING
  | TIMING_CONTROL
  | INGREDIENT_KNOWLEDGE
  | RECIPE_COMPLEXITY
  | SEASONING_EXPERTISE
  | TEMPERATURE_CONTROL
  | PRESENTATION

text \<open>The members in definition order, as \<^verbatim>\<open>for category in SkillCategory\<close> visits them.\<close>

definition SkillCategory_members :: "SkillCategory list" where
  "SkillCategory_members =
     [TECHNIQUE_MASTERY, FLAVOR_PAIRING, TIMING_CONTROL, INGREDIENT_KNOWLEDGE,
      RECIPE_COMPLEXITY, SEASONING_EXPERTISE, TEMPERATURE_CONTROL, PRESENTATION]"

text \<open>\<^verbatim>\<open>category.value\<close>\<close>

fun category_value :: "SkillCategory \<Rightarrow> string" where
  "category_value TECHNIQUE_MASTERY = ''technique_mastery''"
| "category_value FLAVOR_PAIRING = ''flavor_pairing''"
| "category_value TIMING_CONTROL = ''timing_control''"
| "category_value INGREDIENT_KNOWLEDGE = ''ingredient_knowledge''"
| "category_value RECIPE_COMPLEXITY = ''recipe_complexity''"
| "category_value SEASONING_EXPERTISE = ''seasoning_expertise''"
| "category_value TEMPERATURE_CONTROL = ''temperature_control''"
| "category_value PRESENTATION = ''presentation''"

text \<open>\<^verbatim>\<open>SkillCategory(k)\<close>: the member with that value; \<^verbatim>\<open>ValueError\<close> (here \<open>None\<close>) if there is none.\<close>

definition category_of_value :: "string \<Rightarrow> SkillCategory option" where
  "category_of_value k = find (\<lambda>c. category_value c = k) SkillCategory_members"

record CulinaryMastery =
  categories :: "(SkillCategory \<times> real) list"
  learning_history :: "string list"
  experimentation_outcomes :: "string list"
  successful_innovations :: "string set set"

definition CulinaryMastery_init :: CulinaryMastery where
  "CulinaryMastery_init =
     \<lparr>categories = map (\<lambda>category. (category, 0)) SkillCategory_members,
      learning_history = [],
      experimentation_outcomes = [],
      successful_innovations = {}\<rparr>"


subsection \<open>\<^verbatim>\<open>LearningSystem\<close>: state and inputs\<close>

text \<open>
  The keys that meet in \<^verbatim>\<open>known_recipes\<close>.  \<^verbatim>\<open>_is_novel_combination\<close> tests membership with the
  tuple \<^verbatim>\<open>(ingredients, techniques)\<close> of two frozensets, and stores under the string
  \<^verbatim>\<open>str(combination)\<close>.  A tuple and a string are never equal in Python, so the two kinds of
  key are two constructors.  \<open>Str_key i t\<close> stands for the string that renders the
  combination \<open>(i, t)\<close>; equal combinations are taken to render as the same string.
\<close>

datatype recipe_key =
    Tuple_key "string set" "string set"
  | Str_key "string set" "string set"

record known_recipe =
  first_attempted :: string
  times_attempted :: int

type_synonym flavor_dict = "(string \<times> (string \<times> real) list) list"

record LearningSystem =
  mastery :: CulinaryMastery
  known_recipes :: "recipe_key \<rightharpoonup> known_recipe"
  ingredient_relationships :: "string \<rightharpoonup> string set"
  technique_proficiency :: "string \<rightharpoonup> real"
  flavor_combinations :: flavor_dict
  innovation_attempts :: "string list"
  feedback_history :: "string list"

text \<open>
  \<^verbatim>\<open>LearningSystem.__init__\<close>.  These seven attributes are all the object has: there is no
  attribute \<^verbatim>\<open>successful_innovations\<close> on a \<^verbatim>\<open>LearningSystem\<close>, only on its \<^verbatim>\<open>mastery\<close>.
\<close>

definition LearningSystem_init :: LearningSystem where
  "LearningSystem_init =
     \<lparr>mastery = CulinaryMastery_init,
      known_recipes = Map.empty,
      ingredient_relationships = Map.empty,
      technique_proficiency = Map.empty,
      flavor_combinations = [],
      innovation_attempts = [],
      feedback_history = []\<rparr>"

text \<open>
  The arguments of \<^verbatim>\<open>evaluate_recipe_success\<close>: of \<^verbatim>\<open>recipe\<close> the keys the method reads, with
  each ingredient dictionary given by its \<^verbatim>\<open>"item"\<close> and each step (a \<^verbatim>\<open>RecipeStep\<close>) by its
  optional \<^verbatim>\<open>time\<close>; of \<^verbatim>\<open>feedback\<close> the \<^verbatim>\<open>"rating"\<close>, an \<^verbatim>\<open>int\<close> as \<^verbatim>\<open>LearningFeedback\<close> declares it.
\<close>

record recipe_step =
  step_time :: "string option"

record recipe =
  r_ingredients :: "string list"
  r_techniques :: "string list"
  r_steps :: "recipe_step list"

record feedback =
  rating :: int

subsection \<open>\<^verbatim>\<open>_calculate_complexity\<close>\<close>

text \<open>
  Python's \<^verbatim>\<open>int\<close> on a string, for ASCII input: white space around, an optional sign, then
  decimal digits in which single underscores may separate digits.
\<close>

definition py_isspace :: "char \<Rightarrow> bool" where
  "py_isspace c = (let n = (of_char c :: nat) in (9 \<le> n \<and> n \<le> 13) \<or> (28 \<le> n \<and> n \<le> 32))"

definition py_strip :: "string \<Rightarrow> string" where
  "py_strip s = rev (dropWhile py_isspace (rev (dropWhile py_isspace s)))"

definition digit_of :: "char \<Rightarrow> nat option" where
  "digit_of c = (let n = (of_char c :: nat) in if 48 \<le> n \<and> n \<le> 57 then Some (n - 48) else None)"

fun parse_digits :: "nat \<Rightarrow> bool \<Rightarrow> string \<Rightarrow> nat option" where
  "parse_digits acc after_digit [] = (if after_digit then Some acc else None)"
| "parse_digits acc after_digit (c # cs) =
     (if c = CHR ''_'' then (if after_digit then parse_digits acc False cs else None)
      else (case digit_of c of
              None \<Rightarrow> None
            | Some d \<Rightarrow> parse_digits (10 * acc + d) True cs))"

definition py_int :: "string \<Rightarrow> int option" where
  "py_int s =
     (case py_strip s of
        [] \<Rightarrow> None
      | c # cs \<Rightarrow>
          if c = CHR ''-'' then map_option (\<lambda>n. - int n) (parse_digits 0 False cs)
          else if c = CHR ''+'' then map_option int (parse_digits 0 False cs)
          else map_option int (parse_digits 0 False (c # cs)))"

text \<open>
  \<^verbatim>\<open>sum(int(step.time.split("-")[0]) for step in recipe["steps"] if step.time)\<close>: the text
  before the first \<^verbatim>\<open>-\<close> of each non-empty time, read as an integer; the first text that is
  not one raises \<^verbatim>\<open>ValueError\<close>.
\<close>

fun total_time :: "recipe_step list \<Rightarrow> py_error + int" where
  "total_time [] = Inr 0"
| "total_time (step # rest) =
     (case step_time step of
        None \<Rightarrow> total_time rest
      | Some t \<Rightarrow>
          if t = [] then total_time rest
          else (case py_int (takeWhile (\<lambda>c. c \<noteq> CHR ''-'') t) of
                  None \<Rightarrow> Inl ValueError
                | Some n \<Rightarrow> (case total_time rest of
                               Inl e \<Rightarrow> Inl e
                             | Inr m \<Rightarrow> Inr (n + m))))"

definition calculate_complexity :: "recipe \<Rightarrow> py_error + real" where
  "calculate_complexity recipe =
     (case total_time (r_steps recipe) of
        Inl e \<Rightarrow> Inl e
      | Inr minutes \<Rightarrow>
          Inr ((min 1 (real (length (r_ingredients recipe)) / 10)
                + min 1 (real (length (r_techniques recipe)) / 5)
                + min 1 (real (length (r_steps recipe)) / 15)
                + min 1 (real_of_int minutes / 60)) / 4))"

subsection \<open>\<^verbatim>\<open>_update_flavor_pairing\<close>\<close>

text \<open>
  The first four statements make sure that both rows and both entries exist, so the two
  increments that follow always find their entry.
\<close>

definition update_flavor_pairing :: "LearningSystem \<Rightarrow> string \<Rightarrow> string \<Rightarrow> int \<Rightarrow> LearningSystem" where
  "update_flavor_pairing self ing1 ing2 success =
     (let fc1 = setdefault ing1 [] (flavor_combinations self);
          fc2 = setdefault ing2 [] fc1;
          fc3 = AList.map_entry ing1 (setdefault ing2 0) fc2;
          fc4 = AList.map_entry ing2 (setdefault ing1 0) fc3;
          change = (if success = 1 then 1 else - 0.5);
          fc5 = AList.map_entry ing1 (AList.map_entry ing2 (\<lambda>v. v + change)) fc4;
          fc6 = AList.map_entry ing2 (AList.map_entry ing1 (\<lambda>v. v + change)) fc5
      in self\<lparr>flavor_combinations := fc6\<rparr>)"

text \<open>The accumulator of an ordered pair: the entry, and 0 (the value a new entry starts from) where there is none.\<close>

definition row_of :: "flavor_dict \<Rightarrow> string \<Rightarrow> (string \<times> real) list" where
  "row_of fc a = (case map_of fc a of None \<Rightarrow> [] | Some row \<Rightarrow> row)"

definition score_of :: "flavor_dict \<Rightarrow> string \<Rightarrow> string \<Rightarrow> real" where
  "score_of fc a b = (case map_of (row_of fc a) b of None \<Rightarrow> 0 | Some v \<Rightarrow> v)"

subsection \<open>\<^verbatim>\<open>_is_novel_combination\<close>\<close>

text \<open>
  \<open>now\<close> is the text of \<^verbatim>\<open>datetime.now().isoformat()\<close>.  The \<^verbatim>\<open>else\<close> branch reads the entry under
  the string key, which raises \<^verbatim>\<open>KeyError\<close> if it is missing.
\<close>

definition is_novel_combination ::
  "LearningSystem \<Rightarrow> recipe \<Rightarrow> string \<Rightarrow> LearningSystem \<times> (py_error + bool)" where
  "is_novel_combination self recipe now =
     (let ingredients = set (r_ingredients recipe);
          techniques = set (r_techniques recipe);
          is_novel = (known_recipes self (Tuple_key ingredients techniques) = None)
      in if is_novel
         then (self\<lparr>known_recipes := (known_recipes self)
                 (Str_key ingredients techniques \<mapsto>
                    \<lparr>first_attempted = now, times_attempted = 1\<rparr>)\<rparr>, Inr True)
         else (case known_recipes self (Str_key ingredients techniques) of
                 None \<Rightarrow> (self, Inl KeyError)
               | Some entry \<Rightarrow>
                   (self\<lparr>known_recipes := (known_recipes self)
                      (Str_key ingredients techniques \<mapsto>
                         entry\<lparr>times_attempted := times_attempted entry + 1\<rparr>)\<rparr>, Inr False)))"

subsection \<open>\<^verbatim>\<open>_update_mastery_levels\<close>\<close>

text \<open>
  The loop over the categories, on the categories still to visit.  Both subscripts raise
  \<^verbatim>\<open>KeyError\<close> on a missing key; the categories updated before that stay updated.
\<close>

fun update_mastery_loop ::
  "LearningSystem \<Rightarrow> (string \<times> real) list \<Rightarrow> real \<Rightarrow> real \<Rightarrow> SkillCategory list
     \<Rightarrow> LearningSystem \<times> py_error option" where
  "update_mastery_loop self changes complexity feedback_multiplier [] = (self, None)"
| "update_mastery_loop self changes complexity feedback_multiplier (category # rest) =
     (case map_of (categories (mastery self)) category of
        None \<Rightarrow> (self, Some KeyError)
      | Some current \<Rightarrow>
          (case map_of changes (category_value category) of
             None \<Rightarrow> (self, Some KeyError)
           | Some delta \<Rightarrow>
               (let learning_rate = 0.1 * (1 - current);
                    change = delta * complexity * feedback_multiplier * learning_rate;
                    self' = self\<lparr>mastery := (mastery self)\<lparr>categories :=
                              AList.update category (max 0 (min 1 (current + change)))
                                (categories (mastery self))\<rparr>\<rparr>
                in update_mastery_loop self' changes complexity feedback_multiplier rest)))"

definition update_mastery_levels ::
  "LearningSystem \<Rightarrow> (string \<times> real) list \<Rightarrow> real \<Rightarrow> feedback
     \<Rightarrow> LearningSystem \<times> py_error option" where
  "update_mastery_levels self changes complexity fb =
     (let feedback_multiplier = (if rating fb = 1 then 1 else - 0.5)
      in update_mastery_loop self changes complexity feedback_multiplier SkillCategory_members)"

subsection \<open>\<^verbatim>\<open>evaluate_recipe_success\<close>\<close>

text \<open>The body of \<^verbatim>\<open>for technique in recipe["techniques"]\<close>, then the loop.\<close>

definition learn_technique ::
  "LearningSystem \<times> (string \<times> real) list \<Rightarrow> string \<Rightarrow> real
     \<Rightarrow> LearningSystem \<times> (string \<times> real) list" where
  "learn_technique sc technique complexity_score =
     (let self = fst sc; changes = snd sc;
          tp1 = (if technique_proficiency self technique = None
                 then (technique_proficiency self)(technique \<mapsto> 0.1)
                 else technique_proficiency self);
          tp2 = (case tp1 technique of
                   None \<Rightarrow> tp1
                 | Some p \<Rightarrow> tp1(technique \<mapsto> min 1 (p + 0.1 * complexity_score)))
      in (self\<lparr>technique_proficiency := tp2\<rparr>,
          AList.map_entry (category_value TECHNIQUE_MASTERY) (\<lambda>v. v + 0.05) changes))"

fun learn_techniques ::
  "LearningSystem \<times> (string \<times> real) list \<Rightarrow> string list \<Rightarrow> real
     \<Rightarrow> LearningSystem \<times> (string \<times> real) list" where
  "learn_techniques sc [] complexity_score = sc"
| "learn_techniques sc (technique # rest) complexity_score =
     learn_techniques (learn_technique sc technique complexity_score) rest complexity_score"

text \<open>
  \<^verbatim>\<open>for i in range(len(ingredients)): for j in range(i + 1, len(ingredients))\<close>: the inner loop
  pairs the item at \<^verbatim>\<open>i\<close> with every later item, the outer one moves \<^verbatim>\<open>i\<close> on.
\<close>

fun pair_with_later :: "LearningSystem \<Rightarrow> string \<Rightarrow> string list \<Rightarrow> int \<Rightarrow> LearningSystem" where
  "pair_with_later self ing1 [] success = self"
| "pair_with_later self ing1 (ing2 # later) success =
     pair_with_later (update_flavor_pairing self ing1 ing2 success) ing1 later success"

fun update_flavor_pairs :: "LearningSystem \<Rightarrow> string list \<Rightarrow> int \<Rightarrow> LearningSystem" where
  "update_flavor_pairs self [] success = self"
| "update_flavor_pairs self (ing1 # later) success =
     update_flavor_pairs (pair_with_later self ing1 later success) later success"

text \<open>The last two statements: \<^verbatim>\<open>self._update_mastery_levels(...)\<close> and \<^verbatim>\<open>return changes\<close>.\<close>

definition update_and_return ::
  "LearningSystem \<Rightarrow> (string \<times> real) list \<Rightarrow> real \<Rightarrow> feedback
     \<Rightarrow> LearningSystem \<times> (py_error + (string \<times> real) list)" where
  "update_and_return self changes complexity_score fb =
     (case update_mastery_levels self changes complexity_score fb of
        (self', Some e) \<Rightarrow> (self', Inl e)
      | (self', None) \<Rightarrow> (self', Inr changes))"

text \<open>
  The method returns the object as it leaves it, and either the dictionary \<^verbatim>\<open>changes\<close> or the
  exception it raises.  In the innovation branch \<^verbatim>\<open>self.successful_innovations\<close> is read on the
  \<^verbatim>\<open>LearningSystem\<close>, which has no such attribute: the read raises \<^verbatim>\<open>AttributeError\<close>.  The
  increments of \<^verbatim>\<open>changes\<close> find their key, since \<^verbatim>\<open>changes\<close> starts with all eight.
\<close>

definition evaluate_recipe_success ::
  "LearningSystem \<Rightarrow> recipe \<Rightarrow> feedback \<Rightarrow> string
     \<Rightarrow> LearningSystem \<times> (py_error + (string \<times> real) list)" where
  "evaluate_recipe_success self recipe fb now =
     (let changes = map (\<lambda>category. (category_value category, 0)) SkillCategory_members
      in case calculate_complexity recipe of
           Inl e \<Rightarrow> (self, Inl e)
         | Inr complexity_score \<Rightarrow>
             (let sc1 = (if rating fb = 1
                         then learn_techniques (self, changes) (r_techniques recipe) complexity_score
                         else (self, changes));
                  self2 = update_flavor_pairs (fst sc1) (r_ingredients recipe) (rating fb)
              in case is_novel_combination self2 recipe now of
                   (self3, Inl e) \<Rightarrow> (self3, Inl e)
                 | (self3, Inr is_novel) \<Rightarrow>
                     if is_novel
                     then (let changes2 = AList.map_entry (category_value RECIPE_COMPLEXITY)
                                            (\<lambda>v. v + 0.1) (snd sc1)
                           in if rating fb = 1
                              then (self3, Inl AttributeError)
                              else update_and_return self3 changes2 complexity_score fb)
                     else update_and_return self3 (snd sc1) complexity_score fb))"

text \<open>
  A sequence of feedback events on one engine, oldest first; each event is the recipe, the
  feedback and the clock reading.  A call that raises leaves the engine as it was at the
  raise, and the next event works on that.
\<close>

fun evaluate_all :: "LearningSystem \<Rightarrow> (recipe \<times> feedback \<times> string) list \<Rightarrow> LearningSystem" where
  "evaluate_all self [] = self"
| "evaluate_all self ((recipe, fb, now) # rest) =
     evaluate_all (fst (evaluate_recipe_success self recipe fb now)) rest"

subsection \<open>\<^verbatim>\<open>suggest_experiments\<close>\<close>

record proposal =
  e_ingredients :: "string list"
  e_reasoning :: string
  e_confidence :: real

text \<open>
  The innermost loop, for one \<^verbatim>\<open>ing1\<close> and one \<^verbatim>\<open>ing2\<close> of its successful pairs: the entries
  \<^verbatim>\<open>(ing3, score)\<close> of the row of \<^verbatim>\<open>ing2\<close> (\<^verbatim>\<open>.get(ing2, {})\<close>, the empty row if there is none)
  that pass the test, each turned into a proposal.  The two subscripts in the confidence
  read entries the loops have just iterated over, so they find them.
\<close>

definition experiments_via :: "flavor_dict \<Rightarrow> string \<Rightarrow> string \<Rightarrow> proposal list" where
  "experiments_via fc ing1 ing2 =
     map (\<lambda>(ing3, score).
            \<lparr>e_ingredients = [ing1, ing3],
             e_reasoning = ''Based on mutual success with '' @ ing2,
             e_confidence = min (score_of fc ing1 ing2) (score_of fc ing2 ing3) / 10\<rparr>)
       (filter (\<lambda>(ing3, score). score > 0 \<and> map_of (row_of fc ing1) ing3 = None \<and> ing3 \<noteq> ing1)
          (row_of fc ing2))"

definition experiments_from :: "flavor_dict \<Rightarrow> string \<Rightarrow> proposal list" where
  "experiments_from fc ing1 =
     (let successful_pairs = map fst (filter (\<lambda>(ing2, score). score > 0) (row_of fc ing1))
      in concat (map (experiments_via fc ing1) successful_pairs))"

text \<open>
  \<^verbatim>\<open>sorted(experiments, key=..., reverse=True)\<close> is stable and descending; so is the insertion
  sort \<open>sort_key\<close> on the negated key.
\<close>

definition suggest_experiments :: "LearningSystem \<Rightarrow> proposal list" where
  "suggest_experiments self =
     (let fc = flavor_combinations self;
          experiments = concat (map (experiments_from fc) (map fst fc))
      in sort_key (\<lambda>x. - e_confidence x) experiments)"

subsection \<open>\<^verbatim>\<open>load_state\<close>\<close>

text \<open>
  The document \<^verbatim>\<open>json.load\<close> returns, in the shape \<^verbatim>\<open>save_state\<close> writes: an object in which
  each key the method reads may be missing (\<open>None\<close>), and each value that is present has the
  type \<^verbatim>\<open>save_state\<close> gives it.  The keys of \<^verbatim>\<open>known_recipes\<close> are strings, given by the
  combination they render.  A saved innovation is a set of ingredient names, which a JSON
  document holds as a list: \<^verbatim>\<open>successful_innovations\<close> is a list of lists.
\<close>

record mastery_doc =
  d_categories :: "(string \<times> real) list option"
  d_learning_history :: "string list option"
  d_successful_innovations :: "string list list option"

record state_doc =
  d_mastery :: "mastery_doc option"
  d_known_recipes :: "(string set \<times> string set \<rightharpoonup> known_recipe) option"
  d_ingredient_relationships :: "(string \<rightharpoonup> string list) option"
  d_technique_proficiency :: "(string \<rightharpoonup> real) option"
  d_flavor_combinations :: "flavor_dict option"
  d_innovation_attempts :: "string list option"
  d_feedback_history :: "string list option"

text \<open>\<^verbatim>\<open>{CulinaryMastery.SkillCategory(k): v for k, v in ....items()}\<close>, built entry by entry.\<close>

fun convert_categories ::
  "(string \<times> real) list \<Rightarrow> (SkillCategory \<times> real) list \<Rightarrow> py_error + (SkillCategory \<times> real) list" where
  "convert_categories [] acc = Inr acc"
| "convert_categories ((k, v) # rest) acc =
     (case category_of_value k of
        None \<Rightarrow> Inl ValueError
      | Some category \<Rightarrow> convert_categories rest (AList.update category v acc))"

text \<open>
  The nine assignments of the \<^verbatim>\<open>try\<close> block, one function each: the new object, or the
  exception that the right-hand side raises (a missing key; a category name that is not one;
  \<^verbatim>\<open>set\<close> of a list that holds a list, which is unhashable).
\<close>

definition restore_categories :: "state_doc \<Rightarrow> LearningSystem \<Rightarrow> py_error + LearningSystem" where
  "restore_categories state self =
     (case d_mastery state of
        None \<Rightarrow> Inl KeyError
      | Some m \<Rightarrow>
          (case d_categories m of
             None \<Rightarrow> Inl KeyError
           | Some cats \<Rightarrow>
               (case convert_categories cats [] of
                  Inl e \<Rightarrow> Inl e
                | Inr cs \<Rightarrow> Inr (self\<lparr>mastery := (mastery self)\<lparr>categories := cs\<rparr>\<rparr>))))"

definition restore_learning_history :: "state_doc \<Rightarrow> LearningSystem \<Rightarrow> py_error + LearningSystem" where
  "restore_learning_history state self =
     (case d_mastery state of
        None \<Rightarrow> Inl KeyError
      | Some m \<Rightarrow>
          (case d_learning_history m of
             None \<Rightarrow> Inl KeyError
           | Some h \<Rightarrow> Inr (self\<lparr>mastery := (mastery self)\<lparr>learning_history := h\<rparr>\<rparr>)))"

definition restore_successful_innovations ::
  "state_doc \<Rightarrow> LearningSystem \<Rightarrow> py_error + LearningSystem" where
  "restore_successful_innovations state self =
     (case d_mastery state of
        None \<Rightarrow> Inl KeyError
      | Some m \<Rightarrow>
          (case d_successful_innovations m of
             None \<Rightarrow> Inl KeyError
           | Some [] \<Rightarrow> Inr (self\<lparr>mastery := (mastery self)\<lparr>successful_innovations := {}\<rparr>\<rparr>)
           | Some (x # xs) \<Rightarrow> Inl TypeError))"

definition restore_known_recipes :: "state_doc \<Rightarrow> LearningSystem \<Rightarrow> py_error + LearningSystem" where
  "restore_known_recipes state self =
     (case d_known_recipes state of
        None \<Rightarrow> Inl KeyError
      | Some kr \<Rightarrow>
          Inr (self\<lparr>known_recipes :=
                 (\<lambda>k. case k of Str_key i t \<Rightarrow> kr (i, t) | Tuple_key i t \<Rightarrow> None)\<rparr>))"

definition restore_ingredient_relationships ::
  "state_doc \<Rightarrow> LearningSystem \<Rightarrow> py_error + LearningSystem" where
  "restore_ingredient_relationships state self =
     (case d_ingredient_relationships state of
        None \<Rightarrow> Inl KeyError
      | Some rel \<Rightarrow> Inr (self\<lparr>ingredient_relationships := (\<lambda>k. map_option set (rel k))\<rparr>))"

definition restore_technique_proficiency ::
  "state_doc \<Rightarrow> LearningSystem \<Rightarrow> py_error + LearningSystem" where
  "restore_technique_proficiency state self =
     (case d_technique_proficiency state of
        None \<Rightarrow> Inl KeyError
      | Some tp \<Rightarrow> Inr (self\<lparr>technique_proficiency := tp\<rparr>))"

definition restore_flavor_combinations ::
  "state_doc \<Rightarrow> LearningSystem \<Rightarrow> py_error + LearningSystem" where
  "restore_flavor_combinations state self =
     (case d_flavor_combinations state of
        None \<Rightarrow> Inl KeyError
      | Some fc \<Rightarrow> Inr (self\<lparr>flavor_combinations := fc\<rparr>))"

definition restore_innovation_attempts ::
  "state_doc \<Rightarrow> LearningSystem \<Rightarrow> py_error + LearningSystem" where
  "restore_innovation_attempts state self =
     (case d_innovation_attempts state of
        None \<Rightarrow> Inl KeyError
      | Some ia \<Rightarrow> Inr (self\<lparr>innovation_attempts := ia\<rparr>))"

definition restore_feedback_history ::
  "state_doc \<Rightarrow> LearningSystem \<Rightarrow> py_error + LearningSystem" where
  "restore_feedback_history state self =
     (case d_feedback_history state of
        None \<Rightarrow> Inl KeyError
      | Some fh \<Rightarrow> Inr (self\<lparr>feedback_history := fh\<rparr>))"

text \<open>
  Statements run in order until one raises; the object keeps what the earlier ones
  assigned.  The result is the object and the exception that stopped the run, if any.
\<close>

fun run_statements ::
  "LearningSystem \<Rightarrow> (LearningSystem \<Rightarrow> py_error + LearningSystem) list
     \<Rightarrow> LearningSystem \<times> py_error option" where
  "run_statements self [] = (self, None)"
| "run_statements self (statement # rest) =
     (case statement self of
        Inl e \<Rightarrow> (self, Some e)
      | Inr self' \<Rightarrow> run_statements self' rest)"

text \<open>
  \<^verbatim>\<open>load_state\<close>.  \<open>file\<close> is what \<^verbatim>\<open>open\<close> and \<^verbatim>\<open>json.load\<close> give for the path: the document, or
  the exception they raise.  The \<^verbatim>\<open>except Exception\<close> clause catches every exception of the
  block and prints it, so the method always returns; the second component of the result is
  the exception it printed, \<open>None\<close> if it printed nothing.
\<close>

definition load_state ::
  "LearningSystem \<Rightarrow> py_error + state_doc \<Rightarrow> LearningSystem \<times> py_error option" where
  "load_state self file =
     (case file of
        Inl e \<Rightarrow> (self, Some e)
      | Inr state \<Rightarrow>
          run_statements self
            [restore_categories state,
             restore_learning_history state,
             restore_successful_innovations state,
             restore_known_recipes state,
             restore_ingredient_relationships state,
             restore_technique_proficiency state,
             restore_flavor_combinations state,
             restore_innovation_attempts state,
             restore_feedback_history state])"

section \<open>Notions used in the statements\<close>


definition has_entry :: "flavor_dict \<Rightarrow> string \<Rightarrow> string \<Rightarrow> bool" where
  "has_entry fc a b = (case map_of fc a of None \<Rightarrow> False | Some row \<Rightarrow> map_of row b \<noteq> None)"

text \<open>No tuple is a key of \<^verbatim>\<open>known_recipes\<close>.\<close>

definition no_tuple_keys :: "LearningSystem \<Rightarrow> bool" where
  "no_tuple_keys self = (\<forall>i t. known_recipes self (Tuple_key i t) = None)"

text \<open>The mastery dictionary has the eight categories as its keys, in order, and every value in [0, 1].\<close>

definition mastery_ok :: "LearningSystem \<Rightarrow> bool" where
  "mastery_ok self =
     (map fst (categories (mastery self)) = SkillCategory_members
      \<and> list_all (\<lambda>(category, v). 0 \<le> v \<and> v \<le> 1) (categories (mastery self)))"

text \<open>
  The feedback events of the examples: as \<^verbatim>\<open>/api/learn\<close> builds them, a recipe has no steps.
\<close>

definition egg_onion :: recipe where
  "egg_onion = \<lparr>r_ingredients = [''egg'', ''onion''], r_techniques = [''saute''], r_steps = []\<rparr>"

definition pair_event :: "string \<Rightarrow> string \<Rightarrow> recipe \<times> feedback \<times> string" where
  "pair_event a b =
     (\<lparr>r_ingredients = [a, b], r_techniques = [], r_steps = []\<rparr>, \<lparr>rating = 1\<rparr>,
      ''2024-05-01T12:00:00'')"

text \<open>The three pair updates of the lemon scenario: as feedback events, and as direct calls of \<^verbatim>\<open>_update_flavor_pairing\<close>.\<close>

definition lemon_events :: "(recipe \<times> feedback \<times> string) list" where
  "lemon_events =
     [pair_event ''lemon'' ''chicken'', pair_event ''chicken'' ''garlic'',
      pair_event ''garlic'' ''onion'']"

definition lemon_direct :: LearningSystem where
  "lemon_direct =
     update_flavor_pairing
       (update_flavor_pairing
          (update_flavor_pairing LearningSystem_init ''lemon'' ''chicken'' 1)
          ''chicken'' ''garlic'' 1)
       ''garlic'' ''onion'' 1"

text \<open>The same with the first two pairs updated twice, so that the proposals differ in confidence.\<close>

definition lemon_repeated :: LearningSystem where
  "lemon_repeated =
     update_flavor_pairing
       (update_flavor_pairing
          (update_flavor_pairing
             (update_flavor_pairing
                (update_flavor_pairing LearningSystem_init ''lemon'' ''chicken'' 1)
                ''lemon'' ''chicken'' 1)
             ''chicken'' ''garlic'' 1)
          ''chicken'' ''garlic'' 1)
       ''garlic'' ''onion'' 1"

text \<open>
  A snapshot from which every one of the nine assignments of \<^verbatim>\<open>load_state\<close> can be made: all
  keys present, every category name a member's value, no saved innovation.
\<close>

definition snapshot_complete :: "state_doc \<Rightarrow> bool" where
  "snapshot_complete state =
     ((case d_mastery state of
         None \<Rightarrow> False
       | Some m \<Rightarrow>
           (case d_categories m of
              None \<Rightarrow> False
            | Some cats \<Rightarrow> list_all (\<lambda>(k, v). category_of_value k \<noteq> None) cats)
           \<and> d_learning_history m \<noteq> None
           \<and> d_successful_innovations m = Some [])
      \<and> d_known_recipes state \<noteq> None
      \<and> d_ingredient_relationships state \<noteq> None
      \<and> d_technique_proficiency state \<noteq> None
      \<and> d_flavor_combinations state \<noteq> None
      \<and> d_innovation_attempts state \<noteq> None
      \<and> d_feedback_history state \<noteq> None)"

text \<open>An incomplete snapshot: the categories are there, the learning history is not.\<close>

definition partial_snapshot :: state_doc where
  "partial_snapshot =
     \<lparr>d_mastery = Some \<lparr>d_categories = Some [(''presentation'', 0.5)],
                       d_learning_history = None,
                       d_successful_innovations = None\<rparr>,
      d_known_recipes = None,
      d_ingredient_relationships = None,
      d_technique_proficiency = None,
      d_flavor_combinations = None,
      d_innovation_attempts = None,
      d_feedback_history = None\<rparr>"

section \<open>Properties of \<^verbatim>\<open>ComplexityManager\<close>\<close>

lemma update_complexity_level:
  "current_level (update_complexity self rd) =
     (if rd_success_rate rd > 0.8
         \<and> real (rd_technique_count rd) \<ge> real_of_int (current_level self) / 10
      then min 100 (current_level self + 5)
      else if rd_success_rate rd < 0.3 then max 0 (current_level self - 2)
      else current_level self)"
  by (simp add: update_complexity_def Let_def)

lemma update_complexity_bounds:
  "0 \<le> current_level self \<Longrightarrow> current_level self \<le> 100 \<Longrightarrow>
   0 \<le> current_level (update_complexity self rd) \<and> current_level (update_complexity self rd) \<le> 100"
  by (simp add: update_complexity_level)

lemma update_complexity_all_bounds:
  "0 \<le> current_level self \<Longrightarrow> current_level self \<le> 100 \<Longrightarrow>
   0 \<le> current_level (update_complexity_all self rds)
   \<and> current_level (update_complexity_all self rds) \<le> 100"
proof (induction rds arbitrary: self)
  case Nil
  then show ?case by simp
next
  case (Cons rd rds)
  show ?case
    using Cons.IH[of "update_complexity self rd"] update_complexity_bounds[OF Cons.prems]
    by simp
qed

lemma update_complexity_all_snoc:
  "update_complexity_all self (rds @ [rd]) = update_complexity (update_complexity_all self rds) rd"
  by (induction rds arbitrary: self) auto

text \<open>
  Promotions from level 0: the call number \<open>i\<close> (counted from 0) finds the level
  \<open>min 100 (5 * i)\<close>, and has enough techniques when its count is at least a tenth of that.
\<close>

lemma promotions_from_zero:
  assumes "\<And>i. i < length rds \<Longrightarrow>
             rd_success_rate (rds ! i) > 0.8
             \<and> real (rd_technique_count (rds ! i)) \<ge> real_of_int (min 100 (5 * int i)) / 10"
  shows "current_level (update_complexity_all ComplexityManager_init rds)
           = min 100 (5 * int (length rds))"
  using assms
proof (induction rds rule: rev_induct)
  case Nil
  then show ?case by (simp add: ComplexityManager_init_def)
next
  case (snoc rd rds)
  have before: "current_level (update_complexity_all ComplexityManager_init rds)
                  = min 100 (5 * int (length rds))"
  proof (rule snoc.IH)
    fix i
    assume "i < length rds"
    then show "rd_success_rate (rds ! i) > 0.8
               \<and> real (rd_technique_count (rds ! i)) \<ge> real_of_int (min 100 (5 * int i)) / 10"
      using snoc.prems[of i] by (simp add: nth_append)
  qed
  have this_call: "rd_success_rate rd > 0.8
        \<and> real (rd_technique_count rd) \<ge> real_of_int (min 100 (5 * int (length rds))) / 10"
    using snoc.prems[of "length rds"] by simp
  show ?case
    using this_call by (simp add: update_complexity_all_snoc update_complexity_level before)
qed

lemma demotions:
  assumes "rd_success_rate rd < 0.3"
  shows "current_level (update_complexity_all self (replicate n rd))
           = (if n = 0 then current_level self else max 0 (current_level self - 2 * int n))"
proof (induction n)
  case 0
  show ?case by simp
next
  case (Suc n)
  have "replicate (Suc n) rd = replicate n rd @ [rd]"
    by (simp add: replicate_append_same)
  then show ?case
    using Suc assms
    by (simp only: update_complexity_all_snoc update_complexity_level) auto
qed

text \<open>
  Claim C6.  The complexity level obeys: a rating above 0.8 with a technique count of at
  least a tenth of the current level raises the level by 5, capped at 100; a rating below 0.3
  lowers it by 2, floored at 0; a rating in [0.3, 0.8] leaves it unchanged whatever the
  technique count.  So the level of a manager that starts at 0 is always in [0, 100]; \<open>N\<close>
  calls with a rating above 0.8 (such as 0.9) and enough techniques, from level 0, reach
  \<open>min 100 (5 * N)\<close>; and \<open>n\<close> calls with a rating below 0.3 (such as 0.2), from level 50, reach
  \<open>max 0 (50 - 2 * n)\<close>, never below 0.
\<close>

theorem complexity_level_rules:
  "(0.8 < rd_success_rate rd
      \<and> real_of_int (current_level self) / 10 \<le> real (rd_technique_count rd)
      \<longrightarrow> current_level (update_complexity self rd) = min 100 (current_level self + 5))
   \<and> (rd_success_rate rd < 0.3
      \<longrightarrow> current_level (update_complexity self rd) = max 0 (current_level self - 2))
   \<and> (0.3 \<le> rd_success_rate rd \<and> rd_success_rate rd \<le> 0.8
      \<longrightarrow> current_level (update_complexity self rd) = current_level self)
   \<and> 0 \<le> current_level (update_complexity_all ComplexityManager_init rds)
   \<and> current_level (update_complexity_all ComplexityManager_init rds) \<le> 100
   \<and> ((\<forall>i < length ups. 0.8 < rd_success_rate (ups ! i)
          \<and> real_of_int (min 100 (5 * int i)) / 10 \<le> real (rd_technique_count (ups ! i)))
      \<longrightarrow> current_level (update_complexity_all ComplexityManager_init ups)
            = min 100 (5 * int (length ups)))
   \<and> (rd_success_rate down < 0.3 \<and> current_level mgr = 50
      \<longrightarrow> current_level (update_complexity_all mgr (replicate n down)) = max 0 (50 - 2 * int n)
          \<and> 0 \<le> current_level (update_complexity_all mgr (replicate n down)))"
proof -
  have rules: "(0.8 < rd_success_rate rd
      \<and> real_of_int (current_level self) / 10 \<le> real (rd_technique_count rd)
      \<longrightarrow> current_level (update_complexity self rd) = min 100 (current_level self + 5))
   \<and> (rd_success_rate rd < 0.3
      \<longrightarrow> current_level (update_complexity self rd) = max 0 (current_level self - 2))
   \<and> (0.3 \<le> rd_success_rate rd \<and> rd_success_rate rd \<le> 0.8
      \<longrightarrow> current_level (update_complexity self rd) = current_level self)"
    by (simp add: update_complexity_level)
  have range: "0 \<le> current_level (update_complexity_all ComplexityManager_init rds)
      \<and> current_level (update_complexity_all ComplexityManager_init rds) \<le> 100"
    by (rule update_complexity_all_bounds) (simp_all add: ComplexityManager_init_def)
  have up: "(\<forall>i < length ups. 0.8 < rd_success_rate (ups ! i)
          \<and> real_of_int (min 100 (5 * int i)) / 10 \<le> real (rd_technique_count (ups ! i)))
      \<longrightarrow> current_level (update_complexity_all ComplexityManager_init ups)
            = min 100 (5 * int (length ups))"
    using promotions_from_zero[of ups] by blast
  have dn: "rd_success_rate down < 0.3 \<and> current_level mgr = 50
      \<longrightarrow> current_level (update_complexity_all mgr (replicate n down)) = max 0 (50 - 2 * int n)
          \<and> 0 \<le> current_level (update_complexity_all mgr (replicate n down))"
    using demotions[of down mgr n] by auto
  show ?thesis
    using rules range up dn by blast
qed

theorem complexity_level_rules_witness:
  "current_level (update_complexity ComplexityManager_init
      \<lparr>rd_rating = Some 0.9, rd_techniques = Some [''whisking''], rd_timestamp = None\<rparr>) = 5
   \<and> current_level (update_complexity \<lparr>current_level = 50, progression_history = []\<rparr>
      \<lparr>rd_rating = Some 0.2, rd_techniques = Some [], rd_timestamp = None\<rparr>) = 48
   \<and> current_level (update_complexity \<lparr>current_level = 50, progression_history = []\<rparr>
      \<lparr>rd_rating = Some 0.5, rd_techniques = Some [''whisking''], rd_timestamp = None\<rparr>) = 50
   \<and> current_level (update_complexity_all ComplexityManager_init
      (replicate 3 \<lparr>rd_rating = Some 0.9, rd_techniques = Some [''whisking''],
                    rd_timestamp = None\<rparr>)) = 15
   \<and> current_level (update_complexity_all \<lparr>current_level = 50, progression_history = []\<rparr>
      (replicate 26 \<lparr>rd_rating = Some 0.2, rd_techniques = Some [], rd_timestamp = None\<rparr>)) = 0"
proof -
  let ?hi = "\<lparr>rd_rating = Some 0.9, rd_techniques = Some [''whisking''], rd_timestamp = None\<rparr>"
  let ?lo = "\<lparr>rd_rating = Some 0.2, rd_techniques = Some [], rd_timestamp = None\<rparr>"
  let ?mid = "\<lparr>rd_rating = Some 0.5, rd_techniques = Some [''whisking''], rd_timestamp = None\<rparr>"
  let ?at50 = "\<lparr>current_level = 50, progression_history = []\<rparr>"
  have enough: "\<forall>i < length (replicate 3 ?hi). 0.8 < rd_success_rate (replicate 3 ?hi ! i)
      \<and> real_of_int (min 100 (5 * int i)) / 10 \<le> real (rd_technique_count (replicate 3 ?hi ! i))"
  proof (intro allI impI)
    fix i :: nat
    assume "i < length (replicate 3 ?hi)"
    then have "i = 0 \<or> i = 1 \<or> i = 2" by auto
    then show "0.8 < rd_success_rate (replicate 3 ?hi ! i)
      \<and> real_of_int (min 100 (5 * int i)) / 10 \<le> real (rd_technique_count (replicate 3 ?hi ! i))"
      by (auto simp: rd_success_rate_def rd_technique_count_def)
  qed
  show ?thesis
    using complexity_level_rules[where rd = ?hi and self = ComplexityManager_init
            and ups = "replicate 3 ?hi" and down = ?lo and mgr = ?at50 and n = 26]
          complexity_level_rules[where rd = ?lo and self = ?at50]
          complexity_level_rules[where rd = ?mid and self = ?at50]
          enough
    by (simp add: rd_success_rate_def rd_technique_count_def ComplexityManager_init_def)
qed

section \<open>Properties of \<^verbatim>\<open>RecipeLearner\<close>\<close>

lemma learn_below_gate:
  "success_rating \<le> 0.7 \<Longrightarrow> learn_technique_sequence self techniques success_rating = self"
  by (simp add: learn_technique_sequence_def)

lemma learn_above_gate_edge:
  "0.7 < success_rating \<Longrightarrow>
   edges (technique_graph (learn_technique_sequence self [a, b] success_rating)) (a, b)
     = Some (case edges (technique_graph self) (a, b) of None \<Rightarrow> 1 | Some w \<Rightarrow> w + 1)"
  by (simp add: learn_technique_sequence_def learn_transition_def update_difficulty_def
      has_edge_def add_edge_def incr_weight_def Let_def split: option.splits)

text \<open>
  Claim C8.  A technique-sequence update whose \<^verbatim>\<open>success_rating\<close> does not exceed 0.7 (0.5,
  say) leaves the learner as it was: the technique graph, with its nodes, edges and weights,
  and the difficulty estimates are unchanged.  Mutation occurs only for a rating above 0.7;
  there, a sequence of two techniques does create their edge at weight 1 or add 1 to its
  weight.
\<close>

theorem gate_blocks_mutation:
  "(success_rating \<le> 0.7
      \<longrightarrow> learn_technique_sequence self techniques success_rating = self)
   \<and> (learn_technique_sequence self techniques success_rating \<noteq> self
      \<longrightarrow> 0.7 < success_rating)
   \<and> (0.7 < success_rating
      \<longrightarrow> edges (technique_graph (learn_technique_sequence self [a, b] success_rating)) (a, b)
            = Some (case edges (technique_graph self) (a, b) of None \<Rightarrow> 1 | Some w \<Rightarrow> w + 1))"
proof (intro conjI impI)
  assume "success_rating \<le> 0.7"
  then show "learn_technique_sequence self techniques success_rating = self"
    by (rule learn_below_gate)
next
  assume changed: "learn_technique_sequence self techniques success_rating \<noteq> self"
  show "0.7 < success_rating"
  proof (rule ccontr)
    assume "\<not> 0.7 < success_rating"
    then have "success_rating \<le> 0.7" by simp
    from learn_below_gate[OF this] changed show False by blast
  qed
next
  assume "0.7 < success_rating"
  then show "edges (technique_graph (learn_technique_sequence self [a, b] success_rating)) (a, b)
            = Some (case edges (technique_graph self) (a, b) of None \<Rightarrow> 1 | Some w \<Rightarrow> w + 1)"
    by (rule learn_above_gate_edge)
qed

theorem gate_blocks_mutation_witness:
  "learn_technique_sequence RecipeLearner_init [''whisking'', ''scrambling''] 0.5
     = RecipeLearner_init
   \<and> edges (technique_graph
        (learn_technique_sequence RecipeLearner_init [''whisking'', ''scrambling''] 0.9))
        (''whisking'', ''scrambling'') = Some 1"
  using gate_blocks_mutation[where success_rating = "0.5" and self = RecipeLearner_init
          and techniques = "[''whisking'', ''scrambling'']"]
        gate_blocks_mutation[where success_rating = "0.9" and self = RecipeLearner_init
          and a = "''whisking''" and b = "''scrambling''"]
  by (simp add: RecipeLearner_init_def)

section \<open>Properties of \<^verbatim>\<open>IngredientLearner\<close>\<close>

lemma dd_get_dd_set:
  "dd_get (dd_set m a b v) d a' b' = (if a' = a \<and> b' = b then v else dd_get m d a' b')"
  by (auto simp: dd_get_def dd_set_def split: option.splits)

lemma cell_learn_pair:
  "cell (learn_pair s i1 i2 r) a b
     = (if a = i1 \<and> b = i2 then blend r (cell s a b) else cell s a b)"
  by (simp add: cell_def compatibility_def confidence_of_def learn_pair_def Let_def
      dd_get_dd_set blend_def)

text \<open>One row of the double loop blends the entry \<open>(i1, b)\<close> once for each occurrence of \<open>b\<close>.\<close>

lemma cell_learn_row:
  "cell (learn_row s i1 xs r) a b =
     (if a = i1 \<and> b \<noteq> i1 then (blend r ^^ count_list xs b) (cell s a b) else cell s a b)"
proof (induction xs arbitrary: s)
  case Nil
  then show ?case by simp
next
  case (Cons x xs)
  show ?case
    by (simp add: Cons.IH cell_learn_pair funpow_swap1)
qed

lemma funpow_funpow: "(f ^^ m) ((f ^^ n) x) = (f ^^ (m + n)) x"
  by (simp add: funpow_add)

lemma cell_learn_rows:
  "cell (learn_rows s ys xs r) a b =
     (if a \<noteq> b then (blend r ^^ (count_list ys a * count_list xs b)) (cell s a b)
      else cell s a b)"
proof (induction ys arbitrary: s)
  case Nil
  then show ?case by simp
next
  case (Cons y ys)
  show ?case
    by (auto simp add: Cons.IH cell_learn_row funpow_funpow add.commute)
qed

text \<open>
  The whole call blends the entry of two different names once for each pair of positions
  that hold them; the number is the same for both directions.
\<close>

lemma cell_learn_from_feedback:
  "cell (learn_from_feedback s xs r) a b =
     (if a \<noteq> b then (blend r ^^ (count_list xs a * count_list xs b)) (cell s a b)
      else cell s a b)"
  by (simp add: learn_from_feedback_def cell_learn_rows)

lemma snd_blend_pow: "snd ((blend r ^^ n) p) = snd p + real n"
  by (induction n) (auto simp: blend_def split: prod.splits)

lemma symmetric_step:
  assumes "\<forall>a b. cell s a b = cell s b a \<and> 1 \<le> snd (cell s a b)"
  shows "\<forall>a b. cell (learn_from_feedback s xs r) a b = cell (learn_from_feedback s xs r) b a
               \<and> 1 \<le> snd (cell (learn_from_feedback s xs r) a b)"
  using assms
  by (auto simp: cell_learn_from_feedback snd_blend_pow mult.commute add_increasing2)

lemma symmetric_all:
  assumes "\<forall>a b. cell s a b = cell s b a \<and> 1 \<le> snd (cell s a b)"
  shows "\<forall>a b. cell (learn_from_feedback_all s us) a b = cell (learn_from_feedback_all s us) b a
               \<and> 1 \<le> snd (cell (learn_from_feedback_all s us) a b)"
  using assms
proof (induction s us rule: learn_from_feedback_all.induct)
  case (1 self)
  then show ?case by simp
next
  case (2 self ingredients rating rest)
  from symmetric_step[OF "2.prems"] "2.IH" show ?case by simp
qed

lemma symmetric_init:
  "\<forall>a b. cell IngredientLearner_init a b = cell IngredientLearner_init b a
         \<and> 1 \<le> snd (cell IngredientLearner_init a b)"
  by (simp add: cell_def compatibility_def confidence_of_def dd_get_def IngredientLearner_init_def)

text \<open>
  Claim C5.  For every pair of ingredients \<open>(a, b)\<close> and every sequence of compatibility
  updates from the initial state, the compatibility score and the confidence of \<open>(a, b)\<close>
  equal those of \<open>(b, a)\<close> after the sequence, hence after each update; and one update
  applies the same number \<open>n\<close> of blends to both directions of a pair.  The confidence
  stays at least 1, so the division of the blend never divides by zero.
\<close>

theorem compatibility_symmetric:
  "compatibility (learn_from_feedback_all IngredientLearner_init updates) a b
     = compatibility (learn_from_feedback_all IngredientLearner_init updates) b a
   \<and> confidence_of (learn_from_feedback_all IngredientLearner_init updates) a b
     = confidence_of (learn_from_feedback_all IngredientLearner_init updates) b a
   \<and> 1 \<le> confidence_of (learn_from_feedback_all IngredientLearner_init updates) a b
   \<and> (\<exists>n. cell (learn_from_feedback self ingredients r) a b
              = (blend r ^^ n) (cell self a b)
          \<and> cell (learn_from_feedback self ingredients r) b a
              = (blend r ^^ n) (cell self b a))"
proof -
  let ?s = "learn_from_feedback_all IngredientLearner_init updates"
  have "cell ?s a b = cell ?s b a \<and> 1 \<le> snd (cell ?s a b)"
    using symmetric_all[OF symmetric_init, of updates] by blast
  then have reachable: "compatibility ?s a b = compatibility ?s b a
      \<and> confidence_of ?s a b = confidence_of ?s b a \<and> 1 \<le> confidence_of ?s a b"
    by (simp add: cell_def)
  have one_call: "\<exists>n. cell (learn_from_feedback self ingredients r) a b
              = (blend r ^^ n) (cell self a b)
          \<and> cell (learn_from_feedback self ingredients r) b a
              = (blend r ^^ n) (cell self b a)"
  proof (cases "a = b")
    case True
    then have "cell (learn_from_feedback self ingredients r) a b
                 = (blend r ^^ 0) (cell self a b)
               \<and> cell (learn_from_feedback self ingredients r) b a
                 = (blend r ^^ 0) (cell self b a)"
      by (simp add: cell_learn_from_feedback)
    then show ?thesis by blast
  next
    case False
    then have "cell (learn_from_feedback self ingredients r) a b
                 = (blend r ^^ (count_list ingredients a * count_list ingredients b))
                     (cell self a b)
               \<and> cell (learn_from_feedback self ingredients r) b a
                 = (blend r ^^ (count_list ingredients a * count_list ingredients b))
                     (cell self b a)"
      by (simp add: cell_learn_from_feedback mult.commute)
    then show ?thesis by blast
  qed
  show ?thesis
    using reachable one_call by blast
qed

theorem compatibility_symmetric_witness:
  "compatibility (learn_from_feedback_all IngredientLearner_init
       [([''lemon'', ''chicken''], 0.9), ([''chicken'', ''lemon'', ''garlic''], 0.4)])
     ''lemon'' ''chicken'' = 13 / 30
   \<and> compatibility (learn_from_feedback_all IngredientLearner_init
       [([''lemon'', ''chicken''], 0.9), ([''chicken'', ''lemon'', ''garlic''], 0.4)])
     ''chicken'' ''lemon'' = 13 / 30"
proof -
  let ?s = "learn_from_feedback_all IngredientLearner_init
       [([''lemon'', ''chicken''], 0.9), ([''chicken'', ''lemon'', ''garlic''], 0.4)]"
  have "compatibility ?s ''lemon'' ''chicken'' = 13 / 30"
    by (simp add: compatibility_def learn_from_feedback_def learn_pair_def Let_def
        dd_get_dd_set IngredientLearner_init_def)
      (simp add: dd_get_def)
  then show ?thesis
    using compatibility_symmetric[where updates = "[([''lemon'', ''chicken''], 0.9),
            ([''chicken'', ''lemon'', ''garlic''], 0.4)]"
          and a = "''lemon''" and b = "''chicken''"]
    by simp
qed

section \<open>Properties of \<^verbatim>\<open>LearningSystem\<close>\<close>

subsection \<open>One call of \<^verbatim>\<open>_update_flavor_pairing\<close>\<close>














subsection \<open>What each step leaves alone\<close>

lemma update_flavor_pairing_frame:
  "mastery (update_flavor_pairing s x y r) = mastery s"
  "known_recipes (update_flavor_pairing s x y r) = known_recipes s"
  "technique_proficiency (update_flavor_pairing s x y r) = technique_proficiency s"
  by (simp_all add: update_flavor_pairing_def Let_def)

lemma pair_with_later_frame:
  "mastery (pair_with_later s x ys r) = mastery s"
  "known_recipes (pair_with_later s x ys r) = known_recipes s"
  "technique_proficiency (pair_with_later s x ys r) = technique_proficiency s"
  by (induction ys arbitrary: s; simp add: update_flavor_pairing_frame)+

lemma update_flavor_pairs_frame:
  "mastery (update_flavor_pairs s xs r) = mastery s"
  "known_recipes (update_flavor_pairs s xs r) = known_recipes s"
  "technique_proficiency (update_flavor_pairs s xs r) = technique_proficiency s"
  by (induction xs arbitrary: s; simp add: pair_with_later_frame)+

lemma learn_techniques_frame:
  "mastery (fst (learn_techniques sc ts c)) = mastery (fst sc)"
  "known_recipes (fst (learn_techniques sc ts c)) = known_recipes (fst sc)"
  "flavor_combinations (fst (learn_techniques sc ts c)) = flavor_combinations (fst sc)"
  by (induction ts arbitrary: sc; simp add: learn_technique_def Let_def)+

lemma update_mastery_loop_frame:
  "known_recipes (fst (update_mastery_loop s ch c fm cs)) = known_recipes s"
  "flavor_combinations (fst (update_mastery_loop s ch c fm cs)) = flavor_combinations s"
  "technique_proficiency (fst (update_mastery_loop s ch c fm cs)) = technique_proficiency s"
  by (induction cs arbitrary: s; simp add: Let_def split: option.splits)+

lemma fst_update_and_return:
  "fst (update_and_return s ch c fb) = fst (update_mastery_levels s ch c fb)"
  by (simp add: update_and_return_def split: prod.splits option.splits)

lemma update_and_return_frame:
  "known_recipes (fst (update_and_return s ch c fb)) = known_recipes s"
  "flavor_combinations (fst (update_and_return s ch c fb)) = flavor_combinations s"
  "technique_proficiency (fst (update_and_return s ch c fb)) = technique_proficiency s"
  by (simp_all add: fst_update_and_return update_mastery_levels_def update_mastery_loop_frame)

lemma is_novel_combination_frame:
  "mastery (fst (is_novel_combination s recipe now)) = mastery s"
  "flavor_combinations (fst (is_novel_combination s recipe now)) = flavor_combinations s"
  "technique_proficiency (fst (is_novel_combination s recipe now)) = technique_proficiency s"
  by (simp_all add: is_novel_combination_def Let_def split: option.splits)

subsection \<open>Loops over the ingredient pairs\<close>










subsection \<open>The state after \<^verbatim>\<open>evaluate_recipe_success\<close>\<close>

lemma update_flavor_pairing_cong:
  "flavor_combinations s = flavor_combinations t \<Longrightarrow>
   flavor_combinations (update_flavor_pairing s x y r) = flavor_combinations (update_flavor_pairing t x y r)"
  by (simp add: update_flavor_pairing_def Let_def)

lemma pair_with_later_cong:
  "flavor_combinations s = flavor_combinations t \<Longrightarrow>
   flavor_combinations (pair_with_later s x ys r) = flavor_combinations (pair_with_later t x ys r)"
proof (induction ys arbitrary: s t)
  case Nil
  then show ?case by simp
next
  case (Cons y ys)
  show ?case
    unfolding pair_with_later.simps
    by (rule Cons.IH) (rule update_flavor_pairing_cong[OF Cons.prems])
qed

lemma update_flavor_pairs_cong:
  "flavor_combinations s = flavor_combinations t \<Longrightarrow>
   flavor_combinations (update_flavor_pairs s xs r) = flavor_combinations (update_flavor_pairs t xs r)"
proof (induction xs arbitrary: s t)
  case Nil
  then show ?case by simp
next
  case (Cons x xs)
  show ?case
    unfolding update_flavor_pairs.simps
    by (rule Cons.IH) (rule pair_with_later_cong[OF Cons.prems])
qed

lemma update_flavor_pairs_after_techniques:
  "flavor_combinations (update_flavor_pairs (fst (learn_techniques (s, ch) ts c)) xs r)
     = flavor_combinations (update_flavor_pairs s xs r)"
  by (rule update_flavor_pairs_cong) (simp add: learn_techniques_frame)

lemma evaluate_complexity_error:
  "calculate_complexity recipe = Inl e \<Longrightarrow> evaluate_recipe_success self recipe fb now = (self, Inl e)"
  by (simp add: evaluate_recipe_success_def)

lemma evaluate_flavor_combinations:
  assumes "calculate_complexity recipe = Inr c"
  shows "flavor_combinations (fst (evaluate_recipe_success self recipe fb now))
           = flavor_combinations (update_flavor_pairs self (r_ingredients recipe) (rating fb))"
  by (simp add: evaluate_recipe_success_def assms Let_def case_prod_beta
      update_and_return_frame is_novel_combination_frame update_flavor_pairs_after_techniques
      split: sum.splits)

lemma is_novel_when_no_tuple_keys:
  "no_tuple_keys s \<Longrightarrow>
   is_novel_combination s recipe now =
     (s\<lparr>known_recipes := (known_recipes s)
          (Str_key (set (r_ingredients recipe)) (set (r_techniques recipe)) \<mapsto>
            \<lparr>first_attempted = now, times_attempted = 1\<rparr>)\<rparr>, Inr True)"
  by (simp add: no_tuple_keys_def is_novel_combination_def Let_def)

lemma no_tuple_keys_frame:
  "known_recipes s = known_recipes t \<Longrightarrow> no_tuple_keys s = no_tuple_keys t"
  by (simp add: no_tuple_keys_def)

lemma no_tuple_keys_steps:
  "no_tuple_keys (update_flavor_pairs s xs r) = no_tuple_keys s"
  "no_tuple_keys (fst (learn_techniques sc ts c)) = no_tuple_keys (fst sc)"
  by (simp_all add: no_tuple_keys_def update_flavor_pairs_frame learn_techniques_frame)

lemma evaluate_known_recipes:
  assumes "calculate_complexity recipe = Inr c" and "no_tuple_keys self"
  shows "known_recipes (fst (evaluate_recipe_success self recipe fb now))
           = (known_recipes self)
               (Str_key (set (r_ingredients recipe)) (set (r_techniques recipe)) \<mapsto>
                  \<lparr>first_attempted = now, times_attempted = 1\<rparr>)"
  by (simp add: evaluate_recipe_success_def assms Let_def
      is_novel_when_no_tuple_keys no_tuple_keys_steps
      update_and_return_frame update_flavor_pairs_frame learn_techniques_frame)

lemma evaluate_no_tuple_keys:
  assumes "no_tuple_keys self"
  shows "no_tuple_keys (fst (evaluate_recipe_success self recipe fb now))"
proof (cases "calculate_complexity recipe")
  case (Inl e)
  then show ?thesis using assms by (simp add: evaluate_complexity_error)
next
  case (Inr c)
  show ?thesis
    using assms unfolding no_tuple_keys_def evaluate_known_recipes[OF Inr assms]
    by simp
qed

lemma evaluate_all_no_tuple_keys:
  "no_tuple_keys self \<Longrightarrow> no_tuple_keys (evaluate_all self events)"
  by (induction self events rule: evaluate_all.induct) (simp_all add: evaluate_no_tuple_keys)

lemma init_no_tuple_keys: "no_tuple_keys LearningSystem_init"
  by (simp add: no_tuple_keys_def LearningSystem_init_def)

lemma evaluate_rating_one:
  assumes "calculate_complexity recipe = Inr c" and "no_tuple_keys self" and "rating fb = 1"
  shows "snd (evaluate_recipe_success self recipe fb now) = Inl AttributeError"
  by (simp add: evaluate_recipe_success_def assms Let_def
      is_novel_when_no_tuple_keys no_tuple_keys_steps)

subsection \<open>The flavor pairs of one event\<close>




lemma no_steps_complexity:
  "calculate_complexity \<lparr>r_ingredients = xs, r_techniques = ts, r_steps = []\<rparr>
     = Inr ((min 1 (real (length xs) / 10) + min 1 (real (length ts) / 5)) / 4)"
  by (simp add: calculate_complexity_def)







subsection \<open>The mastery levels\<close>

lemma members_UNIV: "set SkillCategory_members = UNIV"
proof -
  have "c \<in> set SkillCategory_members" for c
    by (cases c) (simp_all add: SkillCategory_members_def)
  then show ?thesis by blast
qed


lemma keys_map_entry: "map fst (AList.map_entry k f xs) = map fst xs"
  by (induction xs) auto

lemma list_all_update:
  "list_all P xs \<Longrightarrow> P (k, v) \<Longrightarrow> list_all P (AList.update k v xs)"
  by (induction xs) auto

lemma lookup_category:
  "map fst cats = SkillCategory_members \<Longrightarrow> \<exists>v. map_of cats c = Some v"
proof -
  assume "map fst cats = SkillCategory_members"
  then have "c \<in> fst ` set cats"
    using members_UNIV by (metis UNIV_I set_map)
  then show ?thesis
    by (metis map_of_eq_None_iff not_None_eq)
qed

lemma lookup_change:
  "map fst ch = map category_value SkillCategory_members \<Longrightarrow> \<exists>d. map_of ch (category_value c) = Some d"
proof -
  assume a: "map fst ch = map category_value SkillCategory_members"
  have "category_value c \<in> set (map category_value SkillCategory_members)"
    using members_UNIV by simp
  then have "category_value c \<in> fst ` set ch"
    using a by (metis set_map)
  then show ?thesis
    by (metis map_of_eq_None_iff not_None_eq)
qed

lemma update_mastery_loop_ok:
  assumes "mastery_ok s" and "map fst ch = map category_value SkillCategory_members"
  shows "snd (update_mastery_loop s ch cx fm cs) = None
         \<and> mastery_ok (fst (update_mastery_loop s ch cx fm cs))"
  using assms(1)
proof (induction cs arbitrary: s)
  case Nil
  then show ?case by simp
next
  case (Cons c cs)
  from Cons.prems have keys: "map fst (categories (mastery s)) = SkillCategory_members"
    and vals: "list_all (\<lambda>(category, v). 0 \<le> v \<and> v \<le> 1) (categories (mastery s))"
    by (simp_all add: mastery_ok_def)
  obtain v where v: "map_of (categories (mastery s)) c = Some v"
    using lookup_category[OF keys] by blast
  obtain d where d: "map_of ch (category_value c) = Some d"
    using lookup_change[OF assms(2)] by blast
  define v' where "v' = max 0 (min 1 (v + d * cx * fm * (0.1 * (1 - v))))"
  define s' where "s' = s\<lparr>mastery := (mastery s)\<lparr>categories :=
                              AList.update c v' (categories (mastery s))\<rparr>\<rparr>"
  have c_in: "c \<in> set (map fst (categories (mastery s)))"
    using keys members_UNIV by simp
  have "mastery_ok s'"
    unfolding mastery_ok_def s'_def
    using keys vals c_in by (simp add: AList.update_keys list_all_update v'_def)
  from Cons.IH[OF this] show ?case
    by (simp add: v d Let_def s'_def v'_def)
qed

lemma mastery_ok_frame: "mastery s = mastery t \<Longrightarrow> mastery_ok s = mastery_ok t"
  by (simp add: mastery_ok_def)

lemma mastery_ok_steps:
  "mastery_ok (update_flavor_pairs s xs r) = mastery_ok s"
  "mastery_ok (fst (learn_techniques sc ts c)) = mastery_ok (fst sc)"
  "mastery_ok (fst (is_novel_combination s recipe now)) = mastery_ok s"
  by (simp_all add: mastery_ok_def update_flavor_pairs_frame learn_techniques_frame
      is_novel_combination_frame)

lemma mastery_ok_known_recipes: "mastery_ok (s\<lparr>known_recipes := kr\<rparr>) = mastery_ok s"
  by (simp add: mastery_ok_def)

lemma keys_learn_techniques:
  "map fst (snd (learn_techniques sc ts c)) = map fst (snd sc)"
  by (induction ts arbitrary: sc) (simp_all add: learn_technique_def Let_def keys_map_entry)

lemma update_and_return_ok:
  assumes "mastery_ok s" and "map fst ch = map category_value SkillCategory_members"
  shows "snd (update_and_return s ch cx fb) = Inr ch \<and> mastery_ok (fst (update_and_return s ch cx fb))"
proof -
  obtain s' e where run: "update_mastery_levels s ch cx fb = (s', e)"
    by (cases "update_mastery_levels s ch cx fb")
  have "snd (update_mastery_levels s ch cx fb) = None
        \<and> mastery_ok (fst (update_mastery_levels s ch cx fb))"
    unfolding update_mastery_levels_def Let_def
    by (rule update_mastery_loop_ok[OF assms])
  then have "e = None" and "mastery_ok s'"
    by (simp_all add: run)
  then show ?thesis
    by (simp add: update_and_return_def run)
qed

lemma evaluate_mastery_ok:
  assumes "mastery_ok self"
  shows "mastery_ok (fst (evaluate_recipe_success self recipe fb now))"
proof (cases "calculate_complexity recipe")
  case (Inl e)
  then show ?thesis using assms by (simp add: evaluate_complexity_error)
next
  case (Inr c)
  show ?thesis
    by (simp add: evaluate_recipe_success_def Inr assms Let_def case_prod_beta
        update_and_return_ok mastery_ok_steps keys_learn_techniques keys_map_entry
        split: sum.splits)
qed

lemma evaluate_all_mastery_ok:
  "mastery_ok self \<Longrightarrow> mastery_ok (evaluate_all self events)"
  by (induction self events rule: evaluate_all.induct) (simp_all add: evaluate_mastery_ok)

lemma init_mastery_ok: "mastery_ok LearningSystem_init"
  by (simp add: mastery_ok_def LearningSystem_init_def CulinaryMastery_init_def comp_def
      SkillCategory_members_def)


lemma evaluate_completes:
  assumes "calculate_complexity recipe = Inr c" and "no_tuple_keys self" and "mastery_ok self"
    and "rating fb \<noteq> 1"
  shows "snd (evaluate_recipe_success self recipe fb now) =
           Inr (AList.map_entry (category_value RECIPE_COMPLEXITY) (\<lambda>v. v + 0.1)
                  (map (\<lambda>category. (category_value category, 0)) SkillCategory_members))"
  by (simp add: evaluate_recipe_success_def assms Let_def
      is_novel_when_no_tuple_keys no_tuple_keys_steps update_and_return_ok mastery_ok_steps
      mastery_ok_known_recipes keys_map_entry comp_def)


subsection \<open>Novelty and the innovation branch\<close>

lemma always_novel:
  "is_novel_combination (evaluate_all LearningSystem_init events) recipe now =
     ((evaluate_all LearningSystem_init events)\<lparr>known_recipes :=
         (known_recipes (evaluate_all LearningSystem_init events))
           (Str_key (set (r_ingredients recipe)) (set (r_techniques recipe)) \<mapsto>
              \<lparr>first_attempted = now, times_attempted = 1\<rparr>)\<rparr>, Inr True)"
  by (rule is_novel_when_no_tuple_keys[OF evaluate_all_no_tuple_keys[OF init_no_tuple_keys]])

lemma rating_one_always_raises:
  assumes "calculate_complexity recipe = Inr c" and "rating fb = 1"
  shows "snd (evaluate_recipe_success (evaluate_all LearningSystem_init events) recipe fb now)
           = Inl AttributeError"
  by (rule evaluate_rating_one[OF assms(1) evaluate_all_no_tuple_keys[OF init_no_tuple_keys]
        assms(2)])

lemma other_ratings_complete:
  assumes "calculate_complexity recipe = Inr c" and "rating fb \<noteq> 1"
  shows "\<exists>changes.
           snd (evaluate_recipe_success (evaluate_all LearningSystem_init events) recipe fb now)
             = Inr changes
           \<and> map fst changes = map category_value SkillCategory_members"
proof -
  have "snd (evaluate_recipe_success (evaluate_all LearningSystem_init events) recipe fb now) =
           Inr (AList.map_entry (category_value RECIPE_COMPLEXITY) (\<lambda>v. v + 0.1)
                  (map (\<lambda>category. (category_value category, 0)) SkillCategory_members))"
    by (rule evaluate_completes[OF assms(1) evaluate_all_no_tuple_keys[OF init_no_tuple_keys]
          evaluate_all_mastery_ok[OF init_mastery_ok] assms(2)])
  then show ?thesis
    by (simp add: keys_map_entry comp_def)
qed

text \<open>
  Claim C1 asks that a second call with the same ingredient set and technique set is
  classified as not novel and brings \<^verbatim>\<open>times_attempted\<close> to 2.  The code does not do that:
  the membership test uses the tuple, the entries are stored under its string, so the test
  never finds an entry.  After a first event with eggs and onion, saute, the same event again
  is classified as novel, earns the novelty bonus of 0.1 again, and leaves the entry with a
  fresh time and \<^verbatim>\<open>times_attempted\<close> 1.
\<close>

theorem repeated_recipe_is_novel_again:
  "snd (is_novel_combination
          (fst (evaluate_recipe_success LearningSystem_init egg_onion \<lparr>rating = 0\<rparr>
                  ''2024-05-01T12:00:00''))
          egg_onion ''2024-05-01T12:05:00'') = Inr True
   \<and> snd (evaluate_recipe_success
          (fst (evaluate_recipe_success LearningSystem_init egg_onion \<lparr>rating = 0\<rparr>
                  ''2024-05-01T12:00:00''))
          egg_onion \<lparr>rating = 0\<rparr> ''2024-05-01T12:05:00'')
       = Inr [(''technique_mastery'', 0), (''flavor_pairing'', 0), (''timing_control'', 0),
              (''ingredient_knowledge'', 0), (''recipe_complexity'', 1 / 10),
              (''seasoning_expertise'', 0), (''temperature_control'', 0), (''presentation'', 0)]
   \<and> known_recipes
        (fst (evaluate_recipe_success
                (fst (evaluate_recipe_success LearningSystem_init egg_onion \<lparr>rating = 0\<rparr>
                        ''2024-05-01T12:00:00''))
                egg_onion \<lparr>rating = 0\<rparr> ''2024-05-01T12:05:00''))
        (Str_key {''egg'', ''onion''} {''saute''})
       = Some \<lparr>first_attempted = ''2024-05-01T12:05:00'', times_attempted = 1\<rparr>"
proof -
  let ?s1 = "fst (evaluate_recipe_success LearningSystem_init egg_onion \<lparr>rating = 0\<rparr>
                  ''2024-05-01T12:00:00'')"
  have cx: "calculate_complexity egg_onion = Inr (1 / 10)"
    by (simp add: egg_onion_def no_steps_complexity)
  have keys: "no_tuple_keys ?s1"
    by (rule evaluate_no_tuple_keys[OF init_no_tuple_keys])
  have ok: "mastery_ok ?s1"
    by (rule evaluate_mastery_ok[OF init_mastery_ok])
  have novel: "snd (is_novel_combination ?s1 egg_onion ''2024-05-01T12:05:00'') = Inr True"
    by (simp add: is_novel_when_no_tuple_keys[OF keys])
  have "snd (evaluate_recipe_success ?s1 egg_onion \<lparr>rating = 0\<rparr> ''2024-05-01T12:05:00'') =
           Inr (AList.map_entry (category_value RECIPE_COMPLEXITY) (\<lambda>v. v + 0.1)
                  (map (\<lambda>category. (category_value category, 0)) SkillCategory_members))"
    by (rule evaluate_completes[OF cx keys ok]) simp
  then have bonus: "snd (evaluate_recipe_success ?s1 egg_onion \<lparr>rating = 0\<rparr>
                           ''2024-05-01T12:05:00'')
       = Inr [(''technique_mastery'', 0), (''flavor_pairing'', 0), (''timing_control'', 0),
              (''ingredient_knowledge'', 0), (''recipe_complexity'', 1 / 10),
              (''seasoning_expertise'', 0), (''temperature_control'', 0), (''presentation'', 0)]"
    by (simp add: SkillCategory_members_def)
  have "known_recipes (fst (evaluate_recipe_success ?s1 egg_onion \<lparr>rating = 0\<rparr>
                               ''2024-05-01T12:05:00''))
          (Str_key (set (r_ingredients egg_onion)) (set (r_techniques egg_onion)))
       = Some \<lparr>first_attempted = ''2024-05-01T12:05:00'', times_attempted = 1\<rparr>"
    by (simp add: evaluate_known_recipes[OF cx keys])
  then have entry: "known_recipes (fst (evaluate_recipe_success ?s1 egg_onion \<lparr>rating = 0\<rparr>
                               ''2024-05-01T12:05:00''))
          (Str_key {''egg'', ''onion''} {''saute''})
       = Some \<lparr>first_attempted = ''2024-05-01T12:05:00'', times_attempted = 1\<rparr>"
    by (simp add: egg_onion_def)
  show ?thesis
    using novel bonus entry by (simp only: simp_thms)
qed

text \<open>
  Claim C2 asks that the call completes for every well-formed feedback event, also for the
  rating 1.  The code does not: the innovation branch reads \<^verbatim>\<open>self.successful_innovations\<close>,
  an attribute that only \<^verbatim>\<open>self.mastery\<close> has, so a call with the rating 1 raises
  \<^verbatim>\<open>AttributeError\<close> (\<open>rating_one_always_raises\<close>: on every engine state reached from the
  initial one).  Here on a fresh engine, for a recipe with one ingredient.  With any other
  rating the call completes and returns the eight entries (\<open>other_ratings_complete\<close>).
\<close>

theorem rating_one_raises_attribute_error:
  "snd (evaluate_recipe_success LearningSystem_init
          \<lparr>r_ingredients = [''egg''], r_techniques = [], r_steps = []\<rparr> \<lparr>rating = 1\<rparr>
          ''2024-05-01T12:00:00'') = Inl AttributeError"
  by (rule evaluate_rating_one[OF no_steps_complexity init_no_tuple_keys]) simp

subsection \<open>Suggested experiments\<close>

lemma positive_score_entry:
  assumes "0 < score_of fc a b"
  shows "\<exists>row. map_of fc a = Some row \<and> map_of row b = Some (score_of fc a b)"
proof (cases "map_of fc a")
  case None
  with assms show ?thesis by (simp add: score_of_def row_of_def)
next
  case (Some row)
  show ?thesis
  proof (cases "map_of row b")
    case None
    with Some assms show ?thesis by (simp add: score_of_def row_of_def)
  next
    case (Some v)
    with \<open>map_of fc a = Some row\<close> show ?thesis by (simp add: score_of_def row_of_def)
  qed
qed

lemma suggest_complete:
  assumes ab: "0 < score_of (flavor_combinations self) a b"
    and bc: "0 < score_of (flavor_combinations self) b c"
    and "c \<noteq> a" and unlinked: "\<not> has_entry (flavor_combinations self) a c"
  shows "\<lparr>e_ingredients = [a, c],
          e_reasoning = ''Based on mutual success with '' @ b,
          e_confidence = min (score_of (flavor_combinations self) a b)
                             (score_of (flavor_combinations self) b c) / 10\<rparr>
         \<in> set (suggest_experiments self)"
proof -
  define fc where "fc = flavor_combinations self"
  obtain row_a where row_a: "map_of fc a = Some row_a" "map_of row_a b = Some (score_of fc a b)"
    using positive_score_entry[OF ab] by (auto simp: fc_def)
  obtain row_b where row_b: "map_of fc b = Some row_b" "map_of row_b c = Some (score_of fc b c)"
    using positive_score_entry[OF bc] by (auto simp: fc_def)
  have a_key: "a \<in> set (map fst fc)"
    using map_of_SomeD[OF row_a(1)] by force
  have b_pair: "(b, score_of fc a b) \<in> set (row_of fc a)"
    using map_of_SomeD[OF row_a(2)] by (simp add: row_of_def row_a(1))
  have c_pair: "(c, score_of fc b c) \<in> set (row_of fc b)"
    using map_of_SomeD[OF row_b(2)] by (simp add: row_of_def row_b(1))
  have no_link: "map_of (row_of fc a) c = None"
    using unlinked by (simp add: has_entry_def row_of_def row_a(1) fc_def[symmetric])
  define e where "e = \<lparr>e_ingredients = [a, c],
          e_reasoning = ''Based on mutual success with '' @ b,
          e_confidence = min (score_of fc a b) (score_of fc b c) / 10\<rparr>"
  have passes: "(c, score_of fc b c)
      \<in> set (filter (\<lambda>(ing3, score). score > 0 \<and> map_of (row_of fc a) ing3 = None \<and> ing3 \<noteq> a)
                (row_of fc b))"
    using c_pair bc no_link \<open>c \<noteq> a\<close> by (simp add: fc_def)
  have via: "e \<in> set (experiments_via fc a b)"
    unfolding experiments_via_def e_def set_map
    by (rule image_eqI[OF _ passes]) simp
  have "(b, score_of fc a b) \<in> set (filter (\<lambda>(ing2, score). score > 0) (row_of fc a))"
    using b_pair ab by (simp add: fc_def)
  then have partner: "b \<in> set (map fst (filter (\<lambda>(ing2, score). score > 0) (row_of fc a)))"
    unfolding set_map by (rule image_eqI[rotated]) simp
  have from_a: "e \<in> set (experiments_from fc a)"
    unfolding experiments_from_def Let_def set_concat set_map
    using via partner unfolding set_map by blast
  have "e \<in> set (concat (map (experiments_from fc) (map fst fc)))"
    unfolding set_concat set_map
    using from_a a_key unfolding set_map by blast
  then show ?thesis
    unfolding suggest_experiments_def Let_def fc_def[symmetric] e_def
    by (simp only: set_sort)
qed

lemma suggest_sorted:
  "sorted_wrt (\<lambda>x y. e_confidence y \<le> e_confidence x) (suggest_experiments self)"
proof -
  have "sorted (map (\<lambda>x. - e_confidence x) (suggest_experiments self))"
    unfolding suggest_experiments_def Let_def by (rule sorted_sort_key)
  then show ?thesis
    by (simp add: sorted_wrt_map)
qed

lemma suggest_ranked:
  assumes "i < length (suggest_experiments self)" and "j < length (suggest_experiments self)"
    and "e_confidence (suggest_experiments self ! j) < e_confidence (suggest_experiments self ! i)"
  shows "i < j"
proof (rule ccontr)
  assume "\<not> i < j"
  then have "j < i \<or> j = i" by auto
  then show False
  proof
    assume "j < i"
    then have "e_confidence (suggest_experiments self ! i) \<le> e_confidence (suggest_experiments self ! j)"
      using suggest_sorted[of self] assms(1) by (simp add: sorted_wrt_iff_nth_less)
    with assms(3) show False by simp
  next
    assume "j = i"
    with assms(3) show False by simp
  qed
qed

lemma suggest_experiments_cong:
  "flavor_combinations s = flavor_combinations t \<Longrightarrow> suggest_experiments s = suggest_experiments t"
  by (simp add: suggest_experiments_def)

lemma flavor_after_pair_event:
  "flavor_combinations
     (fst (evaluate_recipe_success s \<lparr>r_ingredients = [a, b], r_techniques = [], r_steps = []\<rparr>
             \<lparr>rating = 1\<rparr> now))
    = flavor_combinations (update_flavor_pairing s a b 1)"
  by (simp add: evaluate_flavor_combinations[OF no_steps_complexity])

lemma lemon_direct_flavors:
  "flavor_combinations lemon_direct =
    [(''lemon'', [(''chicken'', 1)]),
     (''chicken'', [(''lemon'', 1), (''garlic'', 1)]),
     (''garlic'', [(''chicken'', 1), (''onion'', 1)]),
     (''onion'', [(''garlic'', 1)])]"
  by (simp add: lemon_direct_def update_flavor_pairing_def Let_def setdefault_def
      LearningSystem_init_def)

text \<open>The three feedback events leave the same flavor dictionary as the three direct calls.\<close>

lemma lemon_events_flavors:
  "flavor_combinations (evaluate_all LearningSystem_init lemon_events)
     = flavor_combinations lemon_direct"
proof -
  let ?ev = "\<lambda>s a b. fst (evaluate_recipe_success s
      \<lparr>r_ingredients = [a, b], r_techniques = [], r_steps = []\<rparr> \<lparr>rating = 1\<rparr>
      ''2024-05-01T12:00:00'')"
  let ?s1 = "?ev LearningSystem_init ''lemon'' ''chicken''"
  let ?s2 = "?ev ?s1 ''chicken'' ''garlic''"
  let ?s3 = "?ev ?s2 ''garlic'' ''onion''"
  let ?d1 = "update_flavor_pairing LearningSystem_init ''lemon'' ''chicken'' 1"
  let ?d2 = "update_flavor_pairing ?d1 ''chicken'' ''garlic'' 1"
  let ?d3 = "update_flavor_pairing ?d2 ''garlic'' ''onion'' 1"
  have f1: "flavor_combinations ?s1 = flavor_combinations ?d1"
    by (rule flavor_after_pair_event)
  have "flavor_combinations ?s2
          = flavor_combinations (update_flavor_pairing ?s1 ''chicken'' ''garlic'' 1)"
    by (rule flavor_after_pair_event)
  also have "\<dots> = flavor_combinations ?d2"
    by (rule update_flavor_pairing_cong[OF f1])
  finally have f2: "flavor_combinations ?s2 = flavor_combinations ?d2" .
  have "flavor_combinations ?s3
          = flavor_combinations (update_flavor_pairing ?s2 ''garlic'' ''onion'' 1)"
    by (rule flavor_after_pair_event)
  also have "\<dots> = flavor_combinations ?d3"
    by (rule update_flavor_pairing_cong[OF f2])
  finally have f3: "flavor_combinations ?s3 = flavor_combinations ?d3" .
  show ?thesis
    unfolding lemon_events_def pair_event_def evaluate_all.simps lemon_direct_def by (rule f3)
qed

lemma lemon_scores:
  "score_of (flavor_combinations lemon_direct) ''lemon'' ''chicken'' = 1"
  "score_of (flavor_combinations lemon_direct) ''chicken'' ''garlic'' = 1"
  "\<not> has_entry (flavor_combinations lemon_direct) ''lemon'' ''garlic''"
  by (simp_all add: lemon_direct_flavors score_of_def row_of_def has_entry_def)

text \<open>
  Claim C7.  \<^verbatim>\<open>suggest_experiments\<close> is a two-hop closure: for every ingredient \<open>a\<close> with a
  positive-scoring partner \<open>b\<close> and every positive-scoring partner \<open>c\<close> of \<open>b\<close> that is neither
  \<open>a\<close> nor already directly linked to \<open>a\<close>, the result holds the proposal \<open>(a, c)\<close> with the
  confidence \<open>min (score a b) (score b c) / 10\<close>; the result is sorted by descending
  confidence, so a proposal stands before every proposal of lower confidence.  After the
  pairs (lemon, chicken), (chicken, garlic), (garlic, onion) have each been updated with the
  positive rating (1), as three feedback events or as three direct calls, the result holds
  the proposal (lemon, garlic) with that confidence.  (Each of the three feedback events
  raises after its flavor update, see C2; the update stays.)
\<close>

theorem two_hop_suggestions:
  "(0 < score_of (flavor_combinations self) a b
      \<and> 0 < score_of (flavor_combinations self) b c
      \<and> c \<noteq> a \<and> \<not> has_entry (flavor_combinations self) a c
      \<longrightarrow> \<lparr>e_ingredients = [a, c],
            e_reasoning = ''Based on mutual success with '' @ b,
            e_confidence = min (score_of (flavor_combinations self) a b)
                               (score_of (flavor_combinations self) b c) / 10\<rparr>
           \<in> set (suggest_experiments self))
   \<and> sorted_wrt (\<lambda>x y. e_confidence y \<le> e_confidence x) (suggest_experiments self)
   \<and> (i < length (suggest_experiments self) \<and> j < length (suggest_experiments self)
        \<and> e_confidence (suggest_experiments self ! j) < e_confidence (suggest_experiments self ! i)
      \<longrightarrow> i < j)
   \<and> \<lparr>e_ingredients = [''lemon'', ''garlic''],
       e_reasoning = ''Based on mutual success with chicken'',
       e_confidence =
         min (score_of (flavor_combinations (evaluate_all LearningSystem_init lemon_events))
                ''lemon'' ''chicken'')
             (score_of (flavor_combinations (evaluate_all LearningSystem_init lemon_events))
                ''chicken'' ''garlic'') / 10\<rparr>
      \<in> set (suggest_experiments (evaluate_all LearningSystem_init lemon_events))
   \<and> \<lparr>e_ingredients = [''lemon'', ''garlic''],
       e_reasoning = ''Based on mutual success with chicken'',
       e_confidence =
         min (score_of (flavor_combinations lemon_direct) ''lemon'' ''chicken'')
             (score_of (flavor_combinations lemon_direct) ''chicken'' ''garlic'') / 10\<rparr>
      \<in> set (suggest_experiments lemon_direct)"
proof -
  have closure: "0 < score_of (flavor_combinations self) a b
      \<and> 0 < score_of (flavor_combinations self) b c
      \<and> c \<noteq> a \<and> \<not> has_entry (flavor_combinations self) a c
      \<longrightarrow> \<lparr>e_ingredients = [a, c],
            e_reasoning = ''Based on mutual success with '' @ b,
            e_confidence = min (score_of (flavor_combinations self) a b)
                               (score_of (flavor_combinations self) b c) / 10\<rparr>
           \<in> set (suggest_experiments self)"
    using suggest_complete[of self a b c] by blast
  have order: "sorted_wrt (\<lambda>x y. e_confidence y \<le> e_confidence x) (suggest_experiments self)"
    by (rule suggest_sorted)
  have rank: "i < length (suggest_experiments self) \<and> j < length (suggest_experiments self)
        \<and> e_confidence (suggest_experiments self ! j) < e_confidence (suggest_experiments self ! i)
      \<longrightarrow> i < j"
    using suggest_ranked[of i self j] by blast
  have "\<lparr>e_ingredients = [''lemon'', ''garlic''],
       e_reasoning = ''Based on mutual success with '' @ ''chicken'',
       e_confidence =
         min (score_of (flavor_combinations lemon_direct) ''lemon'' ''chicken'')
             (score_of (flavor_combinations lemon_direct) ''chicken'' ''garlic'') / 10\<rparr>
      \<in> set (suggest_experiments lemon_direct)"
    by (rule suggest_complete) (simp_all add: lemon_scores)
  then have direct: "\<lparr>e_ingredients = [''lemon'', ''garlic''],
       e_reasoning = ''Based on mutual success with chicken'',
       e_confidence =
         min (score_of (flavor_combinations lemon_direct) ''lemon'' ''chicken'')
             (score_of (flavor_combinations lemon_direct) ''chicken'' ''garlic'') / 10\<rparr>
      \<in> set (suggest_experiments lemon_direct)"
    by simp
  have events: "\<lparr>e_ingredients = [''lemon'', ''garlic''],
       e_reasoning = ''Based on mutual success with chicken'',
       e_confidence =
         min (score_of (flavor_combinations (evaluate_all LearningSystem_init lemon_events))
                ''lemon'' ''chicken'')
             (score_of (flavor_combinations (evaluate_all LearningSystem_init lemon_events))
                ''chicken'' ''garlic'') / 10\<rparr>
      \<in> set (suggest_experiments (evaluate_all LearningSystem_init lemon_events))"
    unfolding lemon_events_flavors suggest_experiments_cong[OF lemon_events_flavors]
    by (rule direct)
  show ?thesis
    using closure order rank events direct by blast
qed

lemma lemon_repeated_flavors:
  "flavor_combinations lemon_repeated =
    [(''lemon'', [(''chicken'', 2)]),
     (''chicken'', [(''lemon'', 2), (''garlic'', 2)]),
     (''garlic'', [(''chicken'', 2), (''onion'', 1)]),
     (''onion'', [(''garlic'', 1)])]"
  by (simp add: lemon_repeated_def update_flavor_pairing_def Let_def setdefault_def
      LearningSystem_init_def)

lemma lemon_repeated_suggestions:
  "suggest_experiments lemon_repeated =
    [\<lparr>e_ingredients = [''lemon'', ''garlic''],
      e_reasoning = ''Based on mutual success with chicken'', e_confidence = 1 / 5\<rparr>,
     \<lparr>e_ingredients = [''garlic'', ''lemon''],
      e_reasoning = ''Based on mutual success with chicken'', e_confidence = 1 / 5\<rparr>,
     \<lparr>e_ingredients = [''chicken'', ''onion''],
      e_reasoning = ''Based on mutual success with garlic'', e_confidence = 1 / 10\<rparr>,
     \<lparr>e_ingredients = [''onion'', ''chicken''],
      e_reasoning = ''Based on mutual success with garlic'', e_confidence = 1 / 10\<rparr>]"
  by (simp add: suggest_experiments_def lemon_repeated_flavors experiments_from_def
      experiments_via_def row_of_def score_of_def Let_def)

theorem two_hop_suggestions_witness:
  "\<lparr>e_ingredients = [''lemon'', ''garlic''],
     e_reasoning = ''Based on mutual success with chicken'',
     e_confidence = 1 / 5\<rparr> \<in> set (suggest_experiments lemon_repeated)
   \<and> e_confidence (suggest_experiments lemon_repeated ! 2)
       < e_confidence (suggest_experiments lemon_repeated ! 0)
   \<and> (0::nat) < 2"
proof -
  have scores: "score_of (flavor_combinations lemon_repeated) ''lemon'' ''chicken'' = 2"
    "score_of (flavor_combinations lemon_repeated) ''chicken'' ''garlic'' = 2"
    "\<not> has_entry (flavor_combinations lemon_repeated) ''lemon'' ''garlic''"
    by (simp_all add: lemon_repeated_flavors score_of_def row_of_def has_entry_def)
  have ranks: "2 < length (suggest_experiments lemon_repeated)"
    "e_confidence (suggest_experiments lemon_repeated ! 2)
       < e_confidence (suggest_experiments lemon_repeated ! 0)"
    by (simp_all add: lemon_repeated_suggestions)
  show ?thesis
    using two_hop_suggestions[where self = lemon_repeated and a = "''lemon''"
            and b = "''chicken''" and c = "''garlic''" and i = 0 and j = 2]
          scores ranks
    by simp
qed

section \<open>Properties of \<^verbatim>\<open>load_state\<close>\<close>

lemma run_statements_snoc:
  "run_statements self (sts @ [st]) =
     (case run_statements self sts of
        (s, Some e) \<Rightarrow> (s, Some e)
      | (s, None) \<Rightarrow> (case st s of Inl e \<Rightarrow> (s, Some e) | Inr s' \<Rightarrow> (s', None)))"
  by (induction sts arbitrary: self) (auto split: sum.splits)

lemma run_statements_keeps:
  assumes "\<And>st s s'. st \<in> set sts \<Longrightarrow> st s = Inr s' \<Longrightarrow> f s' = f s"
  shows "f (fst (run_statements self sts)) = f self"
  using assms
proof (induction sts arbitrary: self)
  case Nil
  then show ?case by simp
next
  case (Cons st sts)
  show ?case
  proof (cases "st self")
    case (Inl e)
    then show ?thesis by simp
  next
    case (Inr s')
    have "f (fst (run_statements s' sts)) = f s'"
    proof (rule Cons.IH)
      fix st' s t
      assume "st' \<in> set sts" and "st' s = Inr t"
      then show "f t = f s"
        using Cons.prems[of st' s t] by simp
    qed
    moreover have "f s' = f self"
      using Cons.prems[of st self s'] Inr by simp
    ultimately show ?thesis by (simp add: Inr)
  qed
qed

lemma restore_keeps_feedback_history:
  "restore_categories state s = Inr s' \<Longrightarrow> feedback_history s' = feedback_history s"
  "restore_learning_history state s = Inr s' \<Longrightarrow> feedback_history s' = feedback_history s"
  "restore_successful_innovations state s = Inr s' \<Longrightarrow> feedback_history s' = feedback_history s"
  "restore_known_recipes state s = Inr s' \<Longrightarrow> feedback_history s' = feedback_history s"
  "restore_ingredient_relationships state s = Inr s' \<Longrightarrow> feedback_history s' = feedback_history s"
  "restore_technique_proficiency state s = Inr s' \<Longrightarrow> feedback_history s' = feedback_history s"
  "restore_flavor_combinations state s = Inr s' \<Longrightarrow> feedback_history s' = feedback_history s"
  "restore_innovation_attempts state s = Inr s' \<Longrightarrow> feedback_history s' = feedback_history s"
  by (auto simp: restore_categories_def restore_learning_history_def
      restore_successful_innovations_def restore_known_recipes_def
      restore_ingredient_relationships_def restore_technique_proficiency_def
      restore_flavor_combinations_def restore_innovation_attempts_def
      split: option.splits sum.splits list.splits)

lemma failed_load_keeps_feedback_history:
  assumes "snd (load_state self input) \<noteq> None"
  shows "feedback_history (fst (load_state self input)) = feedback_history self"
proof (cases input)
  case (Inl e)
  then show ?thesis by (simp add: load_state_def)
next
  case (Inr state)
  let ?first = "[restore_categories state,
             restore_learning_history state,
             restore_successful_innovations state,
             restore_known_recipes state,
             restore_ingredient_relationships state,
             restore_technique_proficiency state,
             restore_flavor_combinations state,
             restore_innovation_attempts state]"
  have split: "load_state self input = run_statements self (?first @ [restore_feedback_history state])"
    by (simp add: load_state_def Inr)
  have keeps: "feedback_history (fst (run_statements self ?first)) = feedback_history self"
    by (rule run_statements_keeps) (auto dest: restore_keeps_feedback_history)
  have "fst (load_state self input) = fst (run_statements self ?first)"
    using assms unfolding split run_statements_snoc
    by (auto split: prod.splits option.splits sum.splits)
  with keeps show ?thesis by (simp only:)
qed

lemma load_unreadable: "load_state self (Inl e) = (self, Some e)"
  by (simp add: load_state_def)

lemma load_fails_at_categories:
  "restore_categories state self = Inl e \<Longrightarrow> load_state self (Inr state) = (self, Some e)"
  by (simp add: load_state_def)

lemma convert_categories_ok:
  "(\<exists>cs. convert_categories cats acc = Inr cs) \<longleftrightarrow> list_all (\<lambda>(k, v). category_of_value k \<noteq> None) cats"
  by (induction cats acc rule: convert_categories.induct) (auto split: option.splits)

lemma convert_categories_Inr: "convert_categories cats acc = Inr cs \<Longrightarrow> list_all (\<lambda>(k, v). category_of_value k \<noteq> None) cats"
  using convert_categories_ok[of cats acc] by blast

lemma convert_categories_Inl: "convert_categories cats acc = Inl e \<Longrightarrow> \<not> list_all (\<lambda>(k, v). category_of_value k \<noteq> None) cats"
  using convert_categories_ok[of cats acc] by auto

lemma load_succeeds_iff:
  "snd (load_state self (Inr state)) = None \<longleftrightarrow> snapshot_complete state"
  by (auto simp add: load_state_def snapshot_complete_def
      restore_categories_def restore_learning_history_def
      restore_successful_innovations_def restore_known_recipes_def
      restore_ingredient_relationships_def restore_technique_proficiency_def
      restore_flavor_combinations_def restore_innovation_attempts_def restore_feedback_history_def
      dest: convert_categories_Inr convert_categories_Inl
      split: option.splits sum.splits list.splits)

lemma presentation_is_a_category: "category_of_value ''presentation'' = Some PRESENTATION"
  by (simp add: category_of_value_def SkillCategory_members_def)

lemma partial_load:
  "load_state LearningSystem_init (Inr partial_snapshot)
     = (LearningSystem_init\<lparr>mastery := CulinaryMastery_init\<lparr>categories := [(PRESENTATION, 0.5)]\<rparr>\<rparr>,
        Some KeyError)"
  by (simp add: load_state_def partial_snapshot_def restore_categories_def
      restore_learning_history_def presentation_is_a_category LearningSystem_init_def)

text \<open>
  The claim C9 as stated fails: loading the incomplete snapshot into a fresh engine fails
  at the learning history, with a diagnostic, and leaves the engine with the categories of
  the snapshot in place of the eight default ones, which is not the default initial state.
\<close>

theorem partial_load_counterexample:
  "snd (load_state LearningSystem_init (Inr partial_snapshot)) = Some KeyError
   \<and> categories (mastery (fst (load_state LearningSystem_init (Inr partial_snapshot))))
       = [(PRESENTATION, 1 / 2)]
   \<and> fst (load_state LearningSystem_init (Inr partial_snapshot)) \<noteq> LearningSystem_init"
proof -
  have differs: "fst (load_state LearningSystem_init (Inr partial_snapshot)) \<noteq> LearningSystem_init"
  proof
    assume "fst (load_state LearningSystem_init (Inr partial_snapshot)) = LearningSystem_init"
    then have "categories (mastery (fst (load_state LearningSystem_init (Inr partial_snapshot))))
                 = categories (mastery LearningSystem_init)"
      by (simp only:)
    then show False
      unfolding partial_load
      by (simp add: LearningSystem_init_def CulinaryMastery_init_def SkillCategory_members_def)
  qed
  have "snd (load_state LearningSystem_init (Inr partial_snapshot)) = Some KeyError"
    "categories (mastery (fst (load_state LearningSystem_init (Inr partial_snapshot))))
       = [(PRESENTATION, 1 / 2)]"
    by (simp_all add: partial_load)
  with differs show ?thesis by blast
qed

text \<open>
  Claim C9, as amended.  \<^verbatim>\<open>load_state\<close> always returns, and it prints a diagnostic exactly
  when the load fails: when the file cannot be opened or parsed, or when the snapshot is not
  complete.  A load that fails before the first assignment (the file cannot be opened or
  parsed; \<^verbatim>\<open>mastery\<close> or its \<^verbatim>\<open>categories\<close> is missing; a category name is unknown) leaves the
  engine exactly as it was, so a fresh engine stays in the default initial state.  After
  any failed load the field assigned last, \<^verbatim>\<open>feedback_history\<close>, still has its old value.
\<close>

theorem failed_load_is_contained:
  "load_state self (Inl e) = (self, Some e)
   \<and> (snd (load_state self (Inr state)) = None) = snapshot_complete state
   \<and> (restore_categories state self = Inl e \<longrightarrow> load_state self (Inr state) = (self, Some e))
   \<and> (d_mastery state = None \<longrightarrow> load_state self (Inr state) = (self, Some KeyError))
   \<and> (snd (load_state self input) \<noteq> None
        \<longrightarrow> feedback_history (fst (load_state self input)) = feedback_history self)"
proof -
  have missing: "d_mastery state = None \<longrightarrow> load_state self (Inr state) = (self, Some KeyError)"
    by (simp add: load_state_def restore_categories_def)
  have early: "restore_categories state self = Inl e
                 \<longrightarrow> load_state self (Inr state) = (self, Some e)"
    using load_fails_at_categories[of state self e] by blast
  have last: "snd (load_state self input) \<noteq> None
        \<longrightarrow> feedback_history (fst (load_state self input)) = feedback_history self"
    using failed_load_keeps_feedback_history[of self input] by blast
  show ?thesis
    using load_unreadable[of self e] load_succeeds_iff[of self state] missing early last
    by blast
qed

theorem failed_load_is_contained_witness:
  "load_state LearningSystem_init
     (Inr \<lparr>d_mastery = None, d_known_recipes = None, d_ingredient_relationships = None,
           d_technique_proficiency = None, d_flavor_combinations = None,
           d_innovation_attempts = None, d_feedback_history = None\<rparr>)
     = (LearningSystem_init, Some KeyError)
   \<and> feedback_history (fst (load_state LearningSystem_init (Inr partial_snapshot))) = []"
proof -
  let ?empty = "\<lparr>d_mastery = None, d_known_recipes = None, d_ingredient_relationships = None,
           d_technique_proficiency = None, d_flavor_combinations = None,
           d_innovation_attempts = None, d_feedback_history = None\<rparr>"
  have failed: "snd (load_state LearningSystem_init (Inr partial_snapshot)) \<noteq> None"
    by (simp add: partial_load)
  have fresh: "feedback_history LearningSystem_init = []"
    by (simp add: LearningSystem_init_def)
  have early: "restore_categories ?empty LearningSystem_init = Inl KeyError"
    by (simp add: restore_categories_def)
  show ?thesis
    using failed_load_is_contained[where self = LearningSystem_init and state = ?empty
            and e = KeyError and input = "Inr partial_snapshot"]
          failed fresh early
    by simp
qed

end
